theory Spec2Isabelle
  imports Complex_Main "HOL-Library.Word"
begin

section \<open>BeiDou D-NAV ephemeris: orbital and clock model\<close>

text \<open>
  Source: \<^verbatim>\<open>beidou_dnav_ephemeris.cc\<close> (\<^verbatim>\<open>src/unnamed/part_000\<close>). The C++ \<^verbatim>\<open>double\<close> is modelled by \<^typ>\<open>real\<close>:
  every arithmetic operation is the exact one, without rounding, infinities or NaN.
\<close>

subsection \<open>Time normalisation\<close>

text \<open>
  \<^verbatim>\<open>double Beidou_Dnav_Ephemeris::check_t(double time)\<close>: a single \<^verbatim>\<open>if\<close> / \<^verbatim>\<open>else if\<close>,
  each branch shifting by \<^verbatim>\<open>2.0 * half_week\<close> once.
\<close>

definition half_week :: real where
  "half_week = 302400"

definition check_t :: "real \<Rightarrow> real" where
  "check_t time =
     (if time > half_week then time - 2 * half_week
      else if time < - half_week then time + 2 * half_week
      else time)"

subsection \<open>Library functions and constants\<close>

text \<open>
  \<^verbatim>\<open>fmod(x, y)\<close> of \<^verbatim>\<open><cmath>\<close>: \<open>x - n * y\<close> with \<open>n\<close> the quotient \<open>x / y\<close> truncated towards
  zero. Every call of the source has \<open>y = 2.0 * BEIDOU_DNAV_PI\<close>.
\<close>

definition fmod :: "real \<Rightarrow> real \<Rightarrow> real" where
  "fmod x y = x - y * of_int (if 0 \<le> x / y then \<lfloor>x / y\<rfloor> else \<lceil>x / y\<rceil>)"

text \<open>\<^verbatim>\<open>atan2(y, x)\<close> of \<^verbatim>\<open><cmath>\<close>: the angle of the point \<open>(x, y)\<close> in \<open>(-\<pi>, \<pi>]\<close>, 0 at the origin.\<close>

definition atan2 :: "real \<Rightarrow> real \<Rightarrow> real" where
  "atan2 y x =
     (if 0 < x then arctan (y / x)
      else if x < 0 then (if 0 \<le> y then arctan (y / x) + pi else arctan (y / x) - pi)
      else if 0 < y then pi / 2
      else if y < 0 then - pi / 2
      else 0)"

text \<open>
  The constants of \<^verbatim>\<open>Beidou_DNAV.h\<close>, a header that is not among the sources: they are
  parameters of the model.
\<close>

record beidou_dnav_constants =
  BEIDOU_DNAV_PI :: real
  BEIDOU_DNAV_GM :: real
  BEIDOU_DNAV_F :: real
  BEIDOU_DNAV_C_M_S :: real
  BEIDOU_DNAV_OMEGA_EARTH_DOT :: real

subsection \<open>The ephemeris object\<close>

text \<open>The member fields of \<^verbatim>\<open>Beidou_Dnav_Ephemeris\<close> that the functions below read or write.\<close>

record Beidou_Dnav_Ephemeris =
  d_sqrt_A :: real
  d_Toe :: real
  d_Toc :: real
  d_Delta_n :: real
  d_M_0 :: real
  d_eccentricity :: real
  d_OMEGA :: real
  d_OMEGA0 :: real
  d_OMEGA_DOT :: real
  d_i_0 :: real
  d_IDOT :: real
  d_Cuc :: real
  d_Cus :: real
  d_Crc :: real
  d_Crs :: real
  d_Cic :: real
  d_Cis :: real
  d_A_f0 :: real
  d_A_f1 :: real
  d_A_f2 :: real
  d_satClkDrift :: real
  d_dtr :: real
  d_satpos_X :: real
  d_satpos_Y :: real
  d_satpos_Z :: real
  d_satvel_X :: real
  d_satvel_Y :: real
  d_satvel_Z :: real

subsection \<open>The eccentric anomaly loop\<close>

text \<open>
  The loop that stands, word for word, in \<^verbatim>\<open>sv_clock_relativistic_term\<close> and in
  \<^verbatim>\<open>satellitePosition\<close>:
  \<^verbatim>\<open>
  for (int ii = 1; ii < 20; ii++)
      {
          E_old = E;
          E = M + d_eccentricity * sin(E);
          dE = fmod(E - E_old, 2.0 * BEIDOU_DNAV_PI);
          if (fabs(dE) < 1e-12) break;
      }
  \<close>
  \<open>eccentric_anomaly_loop\<close> is the loop entered with the index \<open>ii\<close> and the current \<open>E\<close>; its
  value is the \<open>E\<close> that the code after the loop reads. The termination proof is the
  decreasing distance of \<open>ii\<close> to 20.
\<close>

function eccentric_anomaly_loop :: "real \<Rightarrow> real \<Rightarrow> real \<Rightarrow> int \<Rightarrow> real \<Rightarrow> real" where
  "eccentric_anomaly_loop PI M ecc ii E =
     (if ii < 20 then
        (let E_old = E;
             E' = M + ecc * sin E;
             dE = fmod (E' - E_old) (2 * PI)
         in if \<bar>dE\<bar> < 1 / 10 ^ 12 then E' else eccentric_anomaly_loop PI M ecc (ii + 1) E')
      else E)"
  by pat_completeness auto
termination
  by (relation "measure (\<lambda>(PI, M, ecc, ii, E). nat (20 - ii))") auto

declare eccentric_anomaly_loop.simps [simp del]

text \<open>The loop as both functions run it: \<^verbatim>\<open>E = M;\<close> then \<^verbatim>\<open>ii = 1\<close>.\<close>

definition eccentric_anomaly :: "real \<Rightarrow> real \<Rightarrow> real \<Rightarrow> real" where
  "eccentric_anomaly PI M ecc = eccentric_anomaly_loop PI M ecc 1 M"

text \<open>The mean anomaly \<open>M\<close>, computed the same way by both functions before the loop.\<close>

definition mean_anomaly :: "beidou_dnav_constants \<Rightarrow> real \<Rightarrow> Beidou_Dnav_Ephemeris \<Rightarrow> real" where
  "mean_anomaly K transmitTime eph =
     (let a = d_sqrt_A eph * d_sqrt_A eph;
          tk = check_t (transmitTime - d_Toe eph);
          n0 = sqrt (BEIDOU_DNAV_GM K / (a * a * a));
          n = n0 + d_Delta_n eph;
          M = d_M_0 eph + n * tk
      in fmod (M + 2 * BEIDOU_DNAV_PI K) (2 * BEIDOU_DNAV_PI K))"

subsection \<open>sv\_clock\_drift and sv\_clock\_relativistic\_term\<close>

definition sv_clock_drift :: "real \<Rightarrow> Beidou_Dnav_Ephemeris \<Rightarrow> real \<times> Beidou_Dnav_Ephemeris" where
  "sv_clock_drift transmitTime eph =
     (let dt0 = check_t (transmitTime - d_Toc eph);
          dt1 = dt0 - (d_A_f0 eph + d_A_f1 eph * dt0 + d_A_f2 eph * (dt0 * dt0));
          dt2 = dt1 - (d_A_f0 eph + d_A_f1 eph * dt1 + d_A_f2 eph * (dt1 * dt1));
          drift = d_A_f0 eph + d_A_f1 eph * dt2 + d_A_f2 eph * (dt2 * dt2)
      in (drift, eph\<lparr>d_satClkDrift := drift\<rparr>))"

definition sv_clock_relativistic_term ::
  "beidou_dnav_constants \<Rightarrow> real \<Rightarrow> Beidou_Dnav_Ephemeris \<Rightarrow> real \<times> Beidou_Dnav_Ephemeris" where
  "sv_clock_relativistic_term K transmitTime eph =
     (let M = mean_anomaly K transmitTime eph;
          E = eccentric_anomaly (BEIDOU_DNAV_PI K) M (d_eccentricity eph);
          dtr = BEIDOU_DNAV_F K * d_eccentricity eph * d_sqrt_A eph * sin E
      in (dtr, eph\<lparr>d_dtr := dtr\<rparr>))"

subsection \<open>satellitePosition\<close>

text \<open>
  The local variables of \<^verbatim>\<open>satellitePosition\<close> after the loop, each as the source computes
  it from the ephemeris and the eccentric anomaly \<open>E\<close>.
\<close>

definition sp_phi :: "beidou_dnav_constants \<Rightarrow> Beidou_Dnav_Ephemeris \<Rightarrow> real \<Rightarrow> real" where
  "sp_phi K eph E =
     (let tmp_Y = sqrt (1 - d_eccentricity eph * d_eccentricity eph) * sin E;
          tmp_X = cos E - d_eccentricity eph;
          nu = atan2 tmp_Y tmp_X;
          phi = nu + d_OMEGA eph
      in fmod phi (2 * BEIDOU_DNAV_PI K))"

definition sp_u :: "Beidou_Dnav_Ephemeris \<Rightarrow> real \<Rightarrow> real" where
  "sp_u eph phi = phi + d_Cuc eph * cos (2 * phi) + d_Cus eph * sin (2 * phi)"

definition sp_r :: "Beidou_Dnav_Ephemeris \<Rightarrow> real \<Rightarrow> real \<Rightarrow> real" where
  "sp_r eph E phi =
     d_sqrt_A eph * d_sqrt_A eph * (1 - d_eccentricity eph * cos E)
       + d_Crc eph * cos (2 * phi) + d_Crs eph * sin (2 * phi)"

definition sp_i :: "Beidou_Dnav_Ephemeris \<Rightarrow> real \<Rightarrow> real \<Rightarrow> real" where
  "sp_i eph tk phi =
     d_i_0 eph + d_IDOT eph * tk + d_Cic eph * cos (2 * phi) + d_Cis eph * sin (2 * phi)"

definition sp_Omega :: "beidou_dnav_constants \<Rightarrow> Beidou_Dnav_Ephemeris \<Rightarrow> real \<Rightarrow> real" where
  "sp_Omega K eph tk =
     (let Omega = d_OMEGA0 eph + (d_OMEGA_DOT eph - BEIDOU_DNAV_OMEGA_EARTH_DOT K) * tk
                    - BEIDOU_DNAV_OMEGA_EARTH_DOT K * d_Toe eph
      in fmod (Omega + 2 * BEIDOU_DNAV_PI K) (2 * BEIDOU_DNAV_PI K))"

text \<open>
  \<^verbatim>\<open>double Beidou_Dnav_Ephemeris::satellitePosition(double transmitTime)\<close>: the returned
  \<^verbatim>\<open>dtr_s\<close> and the object after the call.
\<close>

definition satellitePosition ::
  "beidou_dnav_constants \<Rightarrow> real \<Rightarrow> Beidou_Dnav_Ephemeris \<Rightarrow> real \<times> Beidou_Dnav_Ephemeris" where
  "satellitePosition K transmitTime eph =
     (let a = d_sqrt_A eph * d_sqrt_A eph;
          tk = check_t (transmitTime - d_Toe eph);
          M = mean_anomaly K transmitTime eph;
          E = eccentric_anomaly (BEIDOU_DNAV_PI K) M (d_eccentricity eph);
          phi = sp_phi K eph E;
          u = sp_u eph phi;
          r = sp_r eph E phi;
          i = sp_i eph tk phi;
          Omega = sp_Omega K eph tk;
          X = cos u * r * cos Omega - sin u * r * cos i * sin Omega;
          Y = cos u * r * sin Omega + sin u * r * cos i * cos Omega;
          Z = sin u * r * sin i;
          Omega_dot = d_OMEGA_DOT eph - BEIDOU_DNAV_OMEGA_EARTH_DOT K;
          VX = - Omega_dot * (cos u * r + sin u * r * cos i) + X * cos Omega - Y * cos i * sin Omega;
          VY = Omega_dot * (cos u * r * cos Omega - sin u * r * cos i * sin Omega)
                 + X * sin Omega + Y * cos i * cos Omega;
          VZ = Y * sin i;
          tk' = check_t (transmitTime - d_Toc eph);
          dtr_s = d_A_f0 eph + d_A_f1 eph * tk' + d_A_f2 eph * tk' * tk';
          dtr_s' = dtr_s - 2 * sqrt (BEIDOU_DNAV_GM K * a) * d_eccentricity eph * sin E
                     / (BEIDOU_DNAV_C_M_S K * BEIDOU_DNAV_C_M_S K)
      in (dtr_s',
          eph\<lparr>d_satpos_X := X, d_satpos_Y := Y, d_satpos_Z := Z,
              d_satvel_X := VX, d_satvel_Y := VY, d_satvel_Z := VZ\<rparr>))"

section \<open>The channel sample record\<close>

text \<open>
  \<^verbatim>\<open>Gnss_Synchro\<close>, the record that tracking hands to the telemetry decoder and that the
  decoder forwards: the fields that the code below reads or writes. Its header is not
  among the sources; the remaining fields are copied with the record and never looked at.
\<close>

record Gnss_Synchro =
  Channel_ID :: int
  Prompt_Q :: real
  Carrier_phase_rads :: real
  Tracking_sample_counter :: "64 word"
  Flag_valid_symbol_output :: bool
  Flag_valid_pseudorange :: bool
  TOW_at_current_symbol_ms :: "32 word"
  Flag_valid_word :: bool

section \<open>Channel status aggregator\<close>

text \<open>
  Source: \<^verbatim>\<open>channel_status_msg_receiver.cc\<close> (in the sources it follows
  \<^verbatim>\<open>beidou_b3i_telemetry_decoder.cc\<close> in the same file). A message is a \<^verbatim>\<open>pmt\<close> holding a
  \<^verbatim>\<open>boost::any\<close>; the handler tells three cases apart by the type inside. The map
  \<^verbatim>\<open>std::map<int, std::shared_ptr<Gnss_Synchro>>\<close> is a partial function from channel ids to
  the record pointed to.
\<close>

record Monitor_Pvt =
  RX_time :: real

datatype status_msg =
    Synchro_msg Gnss_Synchro
  | Pvt_msg Monitor_Pvt
  | Other_msg

record channel_status_msg_receiver =
  d_channel_status_map :: "int \<rightharpoonup> Gnss_Synchro"
  d_pvt_status :: Monitor_Pvt

datatype log_line = Warning string

text \<open>The constructor: an empty map, and \<^verbatim>\<open>d_pvt_status.RX_time = -1\<close>.\<close>

definition channel_status_msg_receiver_make :: channel_status_msg_receiver where
  "channel_status_msg_receiver_make =
     \<lparr>d_channel_status_map = Map.empty, d_pvt_status = \<lparr>RX_time = - 1\<rparr>\<rparr>"

text \<open>
  \<^verbatim>\<open>msg_handler_events\<close>: the receiver after the message, and what was logged. The
  \<^verbatim>\<open>catch (boost::bad_any_cast&)\<close> has no branch here: each cast follows the test of the
  very type it casts to.
\<close>

fun msg_handler_events ::
  "status_msg \<Rightarrow> channel_status_msg_receiver \<Rightarrow> channel_status_msg_receiver \<times> log_line list" where
  "msg_handler_events (Synchro_msg gnss_synchro_obj) r =
     (if Flag_valid_pseudorange gnss_synchro_obj
      then (r\<lparr>d_channel_status_map :=
                (d_channel_status_map r)(Channel_ID gnss_synchro_obj \<mapsto> gnss_synchro_obj)\<rparr>, [])
      else (r\<lparr>d_channel_status_map :=
                (d_channel_status_map r)(Channel_ID gnss_synchro_obj := None)\<rparr>, []))"
| "msg_handler_events (Pvt_msg monitor_pvt_obj) r = (r\<lparr>d_pvt_status := monitor_pvt_obj\<rparr>, [])"
| "msg_handler_events Other_msg r =
     (r, [Warning ''channel_status_msg_receiver unknown object type!''])"

definition get_current_status_map :: "channel_status_msg_receiver \<Rightarrow> (int \<rightharpoonup> Gnss_Synchro)" where
  "get_current_status_map r = d_channel_status_map r"

text \<open>The receiver after a sequence of messages, handled one after the other.\<close>

fun handle_all :: "status_msg list \<Rightarrow> channel_status_msg_receiver \<Rightarrow> channel_status_msg_receiver" where
  "handle_all [] r = r"
| "handle_all (m # ms) r = handle_all ms (fst (msg_handler_events m r))"

text \<open>
  Used to state properties only: the most recent channel record for channel \<open>c\<close> in a
  sequence of messages (the last one of the list), if there is one.
\<close>

fun last_record :: "int \<Rightarrow> status_msg list \<Rightarrow> Gnss_Synchro option" where
  "last_record c [] = None"
| "last_record c (m # ms) =
     (case last_record c ms of
        Some g \<Rightarrow> Some g
      | None \<Rightarrow> (case m of
                  Synchro_msg g \<Rightarrow> if Channel_ID g = c then Some g else None
                | _ \<Rightarrow> None))"

section \<open>GPS L5 telemetry decoder\<close>

text \<open>
  Source: \<^verbatim>\<open>gps_l5_telemetry_decoder_gs.cc\<close>. The debug log (\<^verbatim>\<open>DLOG\<close>) and the lines printed
  to \<^verbatim>\<open>std::cout\<close> are left out; warnings (\<^verbatim>\<open>LOG(WARNING)\<close>) are part of the output.
\<close>

subsection \<open>Constants and collaborators\<close>

text \<open>
  The constants of \<^verbatim>\<open>GPS_L5.h\<close>, a header that is not among the sources: they are parameters
  of the model, each with its mathematical value. (The comment before the TOW update in
  \<^verbatim>\<open>general_work\<close> gives the symbol period as 10 ms.)
\<close>

record gps_l5_constants =
  GPS_L5_CNAV_DATA_PAGE_BITS :: nat
  GPS_L5_SYMBOLS_PER_BIT :: int
  GPS_L5I_SYMBOL_PERIOD_MS :: int
  GPS_L5_PI :: real

text \<open>
  \<^verbatim>\<open>cnav_msg_t\<close> and \<^verbatim>\<open>cnav_msg_decoder_t\<close> of libswiftcnav: the fields that the block reads.
  \<open>raw_msg\<close> is the byte array, by index. The state of each Viterbi part beyond its
  \<open>invert\<close> flag is private to the library: \<open>part_state\<close>, of a type left open.
\<close>

record cnav_msg_t =
  tow :: "32 word"
  raw_msg :: "nat \<Rightarrow> 8 word"

record 'f cnav_v27_part_t =
  invert :: bool
  part_state :: 'f

record 'f cnav_msg_decoder_t =
  part1 :: "'f cnav_v27_part_t"
  part2 :: "'f cnav_v27_part_t"

text \<open>
  The functions of other classes and libraries that the block calls; their code is not
  among the sources, so they are parameters. \<open>'n\<close> is the type of the message assembler
  \<^verbatim>\<open>Gps_CNAV_Navigation_Message\<close>, \<open>'p\<close> the type of what is published on the
  \<^verbatim>\<open>telemetry\<close> port.
  \<^item> \<open>cnav_msg_decoder_add_symbol\<close> takes the decoder state and the symbol and gives the
    new decoder state and, when it returns \<^verbatim>\<open>true\<close>, the message and the delay that it
    wrote through its pointers.
  \<^item> \<open>have_new_ephemeris\<close>, \<open>have_new_iono\<close> and \<open>have_new_utc_model\<close> are not \<^verbatim>\<open>const\<close>: they
    give their answer and the assembler after the call.
\<close>

record ('f, 'n, 'p) collaborators =
  cnav_msg_decoder_init :: "'f cnav_msg_decoder_t"
  cnav_msg_decoder_add_symbol ::
    "'f cnav_msg_decoder_t \<Rightarrow> 8 word \<Rightarrow> 'f cnav_msg_decoder_t \<times> (cnav_msg_t \<times> 32 word) option"
  Gps_CNAV_Navigation_Message_new :: 'n
  decode_page :: "'n \<Rightarrow> bool list \<Rightarrow> 'n"
  have_new_ephemeris :: "'n \<Rightarrow> bool \<times> 'n"
  get_ephemeris :: "'n \<Rightarrow> 'p"
  have_new_iono :: "'n \<Rightarrow> bool \<times> 'n"
  get_iono :: "'n \<Rightarrow> 'p"
  have_new_utc_model :: "'n \<Rightarrow> bool \<times> 'n"
  get_utc_model :: "'n \<Rightarrow> 'p"

subsection \<open>The block's state, input and output\<close>

text \<open>
  What the diagnostic file holds: the values written, in order. \<open>dump_write\<close> is the
  sequence of \<^verbatim>\<open>d_dump_file.write\<close> calls inside the \<^verbatim>\<open>try\<close>: \<open>fault\<close> is the index of the
  call that throws \<^verbatim>\<open>std::ifstream::failure\<close>, if one does; the result is the file after
  the calls that came through, and whether the exception was thrown.
\<close>

datatype dump_item = Dump_double real | Dump_uint64 "64 word"

definition dump_write :: "nat option \<Rightarrow> dump_item list \<Rightarrow> dump_item list \<Rightarrow> dump_item list \<times> bool" where
  "dump_write fault items file =
     (case fault of
        None \<Rightarrow> (file @ items, False)
      | Some k \<Rightarrow> if k < length items then (file @ take k items, True) else (file @ items, False))"

text \<open>
  The member fields of the block. The class header is not among the sources: the sample
  counter and the last valid preamble are 64 bit unsigned, the threshold and both TOWs
  32 bit unsigned (the source copies the TOW into a \<^verbatim>\<open>uint32_t\<close>).
\<close>

record ('f, 'n) gps_l5_telemetry_decoder_gs =
  d_cnav_decoder :: "'f cnav_msg_decoder_t"
  d_CNAV_Message :: 'n
  d_TOW_at_current_symbol_ms :: "32 word"
  d_TOW_at_Preamble_ms :: "32 word"
  d_flag_valid_word :: bool
  d_flag_PLL_180_deg_phase_locked :: bool
  d_sent_tlm_failed_msg :: bool
  d_max_symbols_without_valid_frame :: "32 word"
  d_sample_counter :: "64 word"
  d_last_valid_preamble :: "64 word"
  d_channel :: int
  d_dump :: bool
  d_dump_file :: "dump_item list"

text \<open>
  One call of \<^verbatim>\<open>general_work\<close> reads one item, \<^verbatim>\<open>in[0]\<close>; whether a write to the diagnostic
  file fails during the call is the environment's choice. The call yields its return
  value, the item written to \<^verbatim>\<open>out[0]\<close> if any, the messages published on the two ports in
  order, and the warnings logged.
\<close>

record work_input =
  in0 :: Gnss_Synchro
  dump_fault :: "nat option"

datatype 'p port_message = Telemetry_to_trk int | Telemetry 'p

record 'p work_output =
  returned :: int
  out0 :: "Gnss_Synchro option"
  published :: "'p port_message list"
  logged :: "log_line list"

subsection \<open>Constructor and reset\<close>

definition gps_l5_make_telemetry_decoder_gs ::
  "gps_l5_constants \<Rightarrow> ('f, 'n, 'p) collaborators \<Rightarrow> bool \<Rightarrow> ('f, 'n) gps_l5_telemetry_decoder_gs" where
  "gps_l5_make_telemetry_decoder_gs K ext dump =
     \<lparr>d_cnav_decoder = cnav_msg_decoder_init ext,
      d_CNAV_Message = Gps_CNAV_Navigation_Message_new ext,
      d_TOW_at_current_symbol_ms = 0,
      d_TOW_at_Preamble_ms = 0,
      d_flag_valid_word = False,
      d_flag_PLL_180_deg_phase_locked = False,
      d_sent_tlm_failed_msg = False,
      d_max_symbols_without_valid_frame =
        word_of_int (int (GPS_L5_CNAV_DATA_PAGE_BITS K) * GPS_L5_SYMBOLS_PER_BIT K * 10),
      d_sample_counter = 0,
      d_last_valid_preamble = 0,
      d_channel = 0,
      d_dump = dump,
      d_dump_file = []\<rparr>"

definition reset :: "('f, 'n) gps_l5_telemetry_decoder_gs \<Rightarrow> ('f, 'n) gps_l5_telemetry_decoder_gs" where
  "reset s =
     s\<lparr>d_last_valid_preamble := d_sample_counter s,
       d_TOW_at_current_symbol_ms := 0,
       d_sent_tlm_failed_msg := False,
       d_flag_valid_word := False\<rparr>"

subsection \<open>general\_work, part by part\<close>

text \<open>
  The count of processed symbols and the telemetry alarm:
  \<^verbatim>\<open>
  d_sample_counter++;
  if (d_sent_tlm_failed_msg == false)
      if ((d_sample_counter - d_last_valid_preamble) > d_max_symbols_without_valid_frame)
          { message_port_pub(pmt::mp("telemetry_to_trk"), pmt::make_any(1));
            d_sent_tlm_failed_msg = true; }
  \<close>
  The subtraction and the comparison are those of unsigned 64 bit integers. The result is
  the state and the list of the messages (the \<^verbatim>\<open>int\<close> inside) sent to the
  \<^verbatim>\<open>telemetry_to_trk\<close> port: one or none.
\<close>

definition telemetry_alarm ::
  "('f, 'n) gps_l5_telemetry_decoder_gs \<Rightarrow> ('f, 'n) gps_l5_telemetry_decoder_gs \<times> int list" where
  "telemetry_alarm s =
     (let s1 = s\<lparr>d_sample_counter := d_sample_counter s + 1\<rparr>
      in if \<not> d_sent_tlm_failed_msg s1
            \<and> d_sample_counter s1 - d_last_valid_preamble s1 > ucast (d_max_symbols_without_valid_frame s1)
         then (s1\<lparr>d_sent_tlm_failed_msg := True\<rparr>, [1])
         else (s1, []))"

text \<open>\<^verbatim>\<open>uint8_t symbol_clip = static_cast<uint8_t>(current_synchro_data.Prompt_Q > 0) * 255;\<close>\<close>

definition symbol_clip :: "Gnss_Synchro \<Rightarrow> 8 word" where
  "symbol_clip current_synchro_data = (if Prompt_Q current_synchro_data > 0 then 255 else 0)"

text \<open>
  The bitset filled from the packet bytes:
  \<^verbatim>\<open>raw_bits[GPS_L5_CNAV_DATA_PAGE_BITS - 1 - i] = ((msg.raw_msg[i / 8] >> (7 - i % 8)) & 1U);\<close>
  for \<open>i\<close> from 0 below \<open>GPS_L5_CNAV_DATA_PAGE_BITS\<close>. The list holds the bitset by index.
\<close>

definition raw_bits :: "gps_l5_constants \<Rightarrow> cnav_msg_t \<Rightarrow> bool list" where
  "raw_bits K msg =
     map (\<lambda>j. let i = GPS_L5_CNAV_DATA_PAGE_BITS K - 1 - j
               in bit (raw_msg msg (i div 8)) (7 - i mod 8))
         [0 ..< GPS_L5_CNAV_DATA_PAGE_BITS K]"

text \<open>
  The page is given to the message assembler, and each of ephemeris, ionospheric model
  and UTC model that the assembler reports as new is published on the \<^verbatim>\<open>telemetry\<close> port.
\<close>

definition publish_navigation_data ::
  "gps_l5_constants \<Rightarrow> ('f, 'n, 'p) collaborators \<Rightarrow> cnav_msg_t \<Rightarrow> 'n \<Rightarrow> 'n \<times> 'p port_message list" where
  "publish_navigation_data K ext msg nav =
     (let nav1 = decode_page ext nav (raw_bits K msg);
          (new_eph, nav2) = have_new_ephemeris ext nav1;
          pub_eph = (if new_eph then [Telemetry (get_ephemeris ext nav2)] else []);
          (new_iono, nav3) = have_new_iono ext nav2;
          pub_iono = (if new_iono then [Telemetry (get_iono ext nav3)] else []);
          (new_utc, nav4) = have_new_utc_model ext nav3;
          pub_utc = (if new_utc then [Telemetry (get_utc_model ext nav4)] else [])
      in (nav4, pub_eph @ pub_iono @ pub_utc))"

text \<open>
  The TOW update and its consistency check:
  \<^verbatim>\<open>
  d_TOW_at_Preamble_ms = msg.tow * 6000;
  uint32_t last_d_TOW_at_current_symbol_ms = d_TOW_at_current_symbol_ms;
  d_TOW_at_current_symbol_ms = msg.tow * 6000 + (delay + 12) * GPS_L5I_SYMBOL_PERIOD_MS;
  if (last_d_TOW_at_current_symbol_ms != 0 and
      std::llabs(static_cast<int64_t>(d_TOW_at_current_symbol_ms)
                 - static_cast<int64_t>(last_d_TOW_at_current_symbol_ms))
        > static_cast<int64_t>(GPS_L5I_SYMBOL_PERIOD_MS))
      { d_TOW_at_current_symbol_ms = 0; d_flag_valid_word = false; }
  else
      { d_last_valid_preamble = d_sample_counter; d_flag_valid_word = true; }
  \<close>
  The products and sums are those of \<^verbatim>\<open>uint32_t\<close>; the difference is taken on the values,
  as 64 bit signed integers hold them.
\<close>

definition update_tow ::
  "gps_l5_constants \<Rightarrow> cnav_msg_t \<Rightarrow> 32 word \<Rightarrow> ('f, 'n) gps_l5_telemetry_decoder_gs
     \<Rightarrow> ('f, 'n) gps_l5_telemetry_decoder_gs" where
  "update_tow K msg delay s =
     (let s1 = s\<lparr>d_TOW_at_Preamble_ms := tow msg * 6000\<rparr>;
          last_d_TOW_at_current_symbol_ms = d_TOW_at_current_symbol_ms s1;
          s2 = s1\<lparr>d_TOW_at_current_symbol_ms :=
                   tow msg * 6000 + (delay + 12) * word_of_int (GPS_L5I_SYMBOL_PERIOD_MS K)\<rparr>
      in if last_d_TOW_at_current_symbol_ms \<noteq> 0
            \<and> \<bar>uint (d_TOW_at_current_symbol_ms s2) - uint last_d_TOW_at_current_symbol_ms\<bar>
                > GPS_L5I_SYMBOL_PERIOD_MS K
         then s2\<lparr>d_TOW_at_current_symbol_ms := 0, d_flag_valid_word := False\<rparr>
         else s2\<lparr>d_last_valid_preamble := d_sample_counter s2, d_flag_valid_word := True\<rparr>)"

text \<open>
  The branch taken when \<open>cnav_msg_decoder_add_symbol\<close> returned \<^verbatim>\<open>true\<close>: the phase
  inversion flag is set from the two parts of the decoder, the page goes to the
  assembler, the TOW is updated.
\<close>

definition new_frame ::
  "gps_l5_constants \<Rightarrow> ('f, 'n, 'p) collaborators \<Rightarrow> cnav_msg_t \<Rightarrow> 32 word
     \<Rightarrow> ('f, 'n) gps_l5_telemetry_decoder_gs
     \<Rightarrow> ('f, 'n) gps_l5_telemetry_decoder_gs \<times> 'p port_message list" where
  "new_frame K ext msg delay s =
     (let s1 = s\<lparr>d_flag_PLL_180_deg_phase_locked :=
                   (invert (part1 (d_cnav_decoder s)) \<or> invert (part2 (d_cnav_decoder s)))\<rparr>;
          (nav, pubs) = publish_navigation_data K ext msg (d_CNAV_Message s1);
          s2 = s1\<lparr>d_CNAV_Message := nav\<rparr>
      in (update_tow K msg delay s2, pubs))"

text \<open>
  The branch taken when it returned \<^verbatim>\<open>false\<close>:
  \<^verbatim>\<open>
  if (d_flag_valid_word)
      { d_TOW_at_current_symbol_ms += GPS_L5I_SYMBOL_PERIOD_MS;
        if (current_synchro_data.Flag_valid_symbol_output == false) d_flag_valid_word = false; }
  \<close>
\<close>

definition no_new_frame ::
  "gps_l5_constants \<Rightarrow> Gnss_Synchro \<Rightarrow> ('f, 'n) gps_l5_telemetry_decoder_gs
     \<Rightarrow> ('f, 'n) gps_l5_telemetry_decoder_gs" where
  "no_new_frame K current_synchro_data s =
     (if d_flag_valid_word s
      then (let s1 = s\<lparr>d_TOW_at_current_symbol_ms :=
                         d_TOW_at_current_symbol_ms s + word_of_int (GPS_L5I_SYMBOL_PERIOD_MS K)\<rparr>
            in if \<not> Flag_valid_symbol_output current_synchro_data
               then s1\<lparr>d_flag_valid_word := False\<rparr>
               else s1)
      else s)"

text \<open>
  The end of \<^verbatim>\<open>general_work\<close>: when the word is valid, the record is annotated, the
  diagnostic values are written if \<open>d_dump\<close> is set (an exception of the write is caught and
  logged), the record is copied to \<^verbatim>\<open>out[0]\<close> and 1 is returned; otherwise 0 is returned.
\<close>

definition forward_output ::
  "gps_l5_constants \<Rightarrow> work_input \<Rightarrow> 'p port_message list \<Rightarrow> ('f, 'n) gps_l5_telemetry_decoder_gs
     \<Rightarrow> ('f, 'n) gps_l5_telemetry_decoder_gs \<times> 'p work_output" where
  "forward_output K inp pubs s =
     (if d_flag_valid_word s
      then
        (let c0 = in0 inp;
             c1 = (if d_flag_PLL_180_deg_phase_locked s
                   then c0\<lparr>Carrier_phase_rads := Carrier_phase_rads c0 + GPS_L5_PI K\<rparr>
                   else c0);
             current_synchro_data =
               c1\<lparr>TOW_at_current_symbol_ms := d_TOW_at_current_symbol_ms s,
                  Flag_valid_word := d_flag_valid_word s\<rparr>;
             (file, thrown) =
               (if d_dump s
                then dump_write (dump_fault inp)
                       [Dump_double (real_of_int (uint (d_TOW_at_current_symbol_ms s)) / 1000),
                        Dump_uint64 (Tracking_sample_counter current_synchro_data),
                        Dump_double (real_of_int (uint (d_TOW_at_Preamble_ms s)) / 1000)]
                       (d_dump_file s)
                else (d_dump_file s, False))
         in (s\<lparr>d_dump_file := file\<rparr>,
             \<lparr>returned = 1,
              out0 = Some current_synchro_data,
              published = pubs,
              logged = (if thrown then [Warning ''Exception writing Telemetry GPS L5 dump file''] else [])\<rparr>))
      else (s, \<lparr>returned = 0, out0 = None, published = pubs, logged = []\<rparr>))"

subsection \<open>general\_work\<close>

definition general_work ::
  "gps_l5_constants \<Rightarrow> ('f, 'n, 'p) collaborators \<Rightarrow> work_input \<Rightarrow> ('f, 'n) gps_l5_telemetry_decoder_gs
     \<Rightarrow> ('f, 'n) gps_l5_telemetry_decoder_gs \<times> 'p work_output" where
  "general_work K ext inp s =
     (let current_synchro_data = in0 inp;
          (s1, alarm) = telemetry_alarm s;
          (dec, frame) = cnav_msg_decoder_add_symbol ext (d_cnav_decoder s1) (symbol_clip current_synchro_data);
          s2 = s1\<lparr>d_cnav_decoder := dec\<rparr>;
          (s3, pubs) = (case frame of
                          Some (msg, delay) \<Rightarrow> new_frame K ext msg delay s2
                        | None \<Rightarrow> (no_new_frame K current_synchro_data s2, []))
      in forward_output K inp (map Telemetry_to_trk alarm @ pubs) s3)"

text \<open>
  The block fed with a sequence of inputs, one call of \<^verbatim>\<open>general_work\<close> for each: the state
  at the end and the outputs of the calls in order.
\<close>

fun run ::
  "gps_l5_constants \<Rightarrow> ('f, 'n, 'p) collaborators \<Rightarrow> work_input list \<Rightarrow> ('f, 'n) gps_l5_telemetry_decoder_gs
     \<Rightarrow> ('f, 'n) gps_l5_telemetry_decoder_gs \<times> 'p work_output list" where
  "run K ext [] s = (s, [])"
| "run K ext (inp # inps) s =
     (let (s1, out) = general_work K ext inp s;
          (s2, outs) = run K ext inps s1
      in (s2, out # outs))"

text \<open>
  Used to state properties only: the number of "telemetry lost" messages among the
  messages published by a sequence of calls.
\<close>

fun is_alarm :: "'p port_message \<Rightarrow> bool" where
  "is_alarm (Telemetry_to_trk message) = True"
| "is_alarm (Telemetry payload) = False"

definition alarms :: "'p work_output list \<Rightarrow> nat" where
  "alarms outs = length (filter is_alarm (concat (map published outs)))"

text \<open>
  Used to state properties only: the test of the telemetry alarm, on the state in which
  \<^verbatim>\<open>general_work\<close> is entered (the counter is incremented before it is compared).
\<close>

definition alarm_due :: "('f, 'n) gps_l5_telemetry_decoder_gs \<Rightarrow> bool" where
  "alarm_due s =
     (d_sample_counter s + 1 - d_last_valid_preamble s > ucast (d_max_symbols_without_valid_frame s))"

text \<open>
  Used to state properties only: the inputs with every write to the diagnostic file
  coming through, the state without the content of the diagnostic file, and an output
  without the log.
\<close>

definition without_faults :: "work_input list \<Rightarrow> work_input list" where
  "without_faults inps = map (\<lambda>inp. inp\<lparr>dump_fault := None\<rparr>) inps"

definition decoding_state :: "('f, 'n) gps_l5_telemetry_decoder_gs \<Rightarrow> ('f, 'n) gps_l5_telemetry_decoder_gs" where
  "decoding_state s = s\<lparr>d_dump_file := []\<rparr>"

definition decoding_output :: "'p work_output \<Rightarrow> 'p work_output" where
  "decoding_output out = out\<lparr>logged := []\<rparr>"

subsection \<open>Concrete inputs\<close>

text \<open>
  Values at which the theorems below are instantiated. The constants are 300 bits per
  page, 2 symbols per bit and 10 ms per symbol: a threshold of 6000 symbols. The stand-in
  for libswiftcnav delivers a message with TOW count 100 and delay 0 on a symbol whose
  \<open>Prompt_Q\<close> is positive and nothing otherwise; the stand-in for the assembler never has
  anything new.
\<close>

definition test_constants :: gps_l5_constants where
  "test_constants =
     \<lparr>GPS_L5_CNAV_DATA_PAGE_BITS = 300, GPS_L5_SYMBOLS_PER_BIT = 2,
      GPS_L5I_SYMBOL_PERIOD_MS = 10, GPS_L5_PI = 31415926535898 / 10 ^ 13\<rparr>"

definition test_msg :: cnav_msg_t where
  "test_msg = \<lparr>tow = 100, raw_msg = (\<lambda>i. 0)\<rparr>"

definition stub_collaborators :: "(unit, unit, unit) collaborators" where
  "stub_collaborators =
     \<lparr>cnav_msg_decoder_init =
        \<lparr>part1 = \<lparr>invert = False, part_state = ()\<rparr>, part2 = \<lparr>invert = False, part_state = ()\<rparr>\<rparr>,
      cnav_msg_decoder_add_symbol = (\<lambda>dec symbol. (dec, if symbol = 255 then Some (test_msg, 0) else None)),
      Gps_CNAV_Navigation_Message_new = (),
      decode_page = (\<lambda>nav bits. nav),
      have_new_ephemeris = (\<lambda>nav. (False, nav)),
      get_ephemeris = (\<lambda>nav. ()),
      have_new_iono = (\<lambda>nav. (False, nav)),
      get_iono = (\<lambda>nav. ()),
      have_new_utc_model = (\<lambda>nav. (False, nav)),
      get_utc_model = (\<lambda>nav. ())\<rparr>"

definition symbol_lost :: work_input where
  "symbol_lost =
     \<lparr>in0 = \<lparr>Channel_ID = 0, Prompt_Q = - 1, Carrier_phase_rads = 0, Tracking_sample_counter = 0,
             Flag_valid_symbol_output = True, Flag_valid_pseudorange = False,
             TOW_at_current_symbol_ms = 0, Flag_valid_word = False\<rparr>,
      dump_fault = None\<rparr>"

definition symbol_found :: work_input where
  "symbol_found =
     \<lparr>in0 = \<lparr>Channel_ID = 0, Prompt_Q = 1, Carrier_phase_rads = 0, Tracking_sample_counter = 0,
             Flag_valid_symbol_output = True, Flag_valid_pseudorange = False,
             TOW_at_current_symbol_ms = 0, Flag_valid_word = False\<rparr>,
      dump_fault = None\<rparr>"

text \<open>
  A second stand-in for libswiftcnav: as the first on a symbol whose \<open>Prompt_Q\<close> is positive;
  on any other symbol it delivers nothing and sets the \<open>invert\<close> flag of its first part (the
  FEC decoder locking onto an inverted preamble before the next message is complete).
\<close>

definition relocking_collaborators :: "(unit, unit, unit) collaborators" where
  "relocking_collaborators =
     stub_collaborators
       \<lparr>cnav_msg_decoder_add_symbol :=
          (\<lambda>dec symbol.
             if symbol = 255 then (dec, Some (test_msg, 0))
             else (dec\<lparr>part1 := (part1 dec)\<lparr>invert := True\<rparr>\<rparr>, None))\<rparr>"

text \<open>The block as constructed for these values, without dump, and the output of a call that forwards, publishes and logs nothing.\<close>

definition fresh_decoder :: "(unit, unit) gps_l5_telemetry_decoder_gs" where
  "fresh_decoder = gps_l5_make_telemetry_decoder_gs test_constants stub_collaborators False"

definition quiet_output :: "unit work_output" where
  "quiet_output = \<lparr>returned = 0, out0 = None, published = [], logged = []\<rparr>"

subsection \<open>Vocabulary for the eccentric anomaly iteration\<close>

text \<open>
  Used to state properties only: the update \<open>E \<leftarrow> M + e sin E\<close> of one pass of the loop, and
  the test that ends the loop after the update of \<open>E\<close>.
\<close>

definition kepler_step :: "real \<Rightarrow> real \<Rightarrow> real \<Rightarrow> real" where
  "kepler_step M ecc E = M + ecc * sin E"

definition kepler_converged :: "real \<Rightarrow> real \<Rightarrow> real \<Rightarrow> real \<Rightarrow> bool" where
  "kepler_converged PI M ecc E = (\<bar>fmod (kepler_step M ecc E - E) (2 * PI)\<bar> < 1 / 10 ^ 12)"

section \<open>Properties of the channel status aggregator\<close>

lemma handle_all_map:
  "d_channel_status_map (handle_all ms r) c =
     (case last_record c ms of
        None \<Rightarrow> d_channel_status_map r c
      | Some g \<Rightarrow> if Flag_valid_pseudorange g then Some g else None)"
proof (induction ms arbitrary: r)
  case Nil
  show ?case by simp
next
  case (Cons m ms)
  show ?case
  proof (cases "last_record c ms")
    case (Some g)
    then show ?thesis by (simp add: Cons.IH)
  next
    case None
    then show ?thesis
      by (cases m) (simp_all add: Cons.IH)
  qed
qed

text \<open>
  Claim C3: after any sequence of messages handled from the constructor's state, a
  channel id is in the status map if and only if the most recent channel record received
  for that channel had \<open>Flag_valid_pseudorange\<close> set; from any state, the entry of a channel
  is that most recent record if it was valid, nothing if it was invalid, and what it was
  before if no record for the channel came. Handling the same message a second time
  leaves the receiver as it is after the first time.
\<close>

theorem status_map_latest_valid_record:
  "(c \<in> dom (get_current_status_map (handle_all ms channel_status_msg_receiver_make))
      = (\<exists>g. last_record c ms = Some g \<and> Flag_valid_pseudorange g))
   \<and> get_current_status_map (handle_all ms r) c =
       (case last_record c ms of
          None \<Rightarrow> get_current_status_map r c
        | Some g \<Rightarrow> if Flag_valid_pseudorange g then Some g else None)
   \<and> fst (msg_handler_events m (fst (msg_handler_events m r))) = fst (msg_handler_events m r)"
proof (intro conjI)
  show "(c \<in> dom (get_current_status_map (handle_all ms channel_status_msg_receiver_make))
      = (\<exists>g. last_record c ms = Some g \<and> Flag_valid_pseudorange g))"
    by (simp add: get_current_status_map_def handle_all_map dom_def channel_status_msg_receiver_make_def
        split: option.splits)
  show "get_current_status_map (handle_all ms r) c =
       (case last_record c ms of
          None \<Rightarrow> get_current_status_map r c
        | Some g \<Rightarrow> if Flag_valid_pseudorange g then Some g else None)"
    by (simp add: get_current_status_map_def handle_all_map split: option.splits)
  show "fst (msg_handler_events m (fst (msg_handler_events m r))) = fst (msg_handler_events m r)"
    by (cases m) simp_all
qed

section \<open>Properties of the GPS L5 telemetry decoder\<close>

subsection \<open>The parts of general\_work\<close>

lemma telemetry_alarm_fst:
  "fst (telemetry_alarm s) =
     s\<lparr>d_sample_counter := d_sample_counter s + 1,
       d_sent_tlm_failed_msg := (d_sent_tlm_failed_msg s \<or> alarm_due s)\<rparr>"
  by (simp add: telemetry_alarm_def alarm_due_def Let_def)

lemma telemetry_alarm_snd:
  "snd (telemetry_alarm s) = (if \<not> d_sent_tlm_failed_msg s \<and> alarm_due s then [1] else [])"
  by (simp add: telemetry_alarm_def alarm_due_def Let_def)

lemma new_frame_fst:
  "fst (new_frame K ext msg delay s) =
     update_tow K msg delay
       (s\<lparr>d_flag_PLL_180_deg_phase_locked :=
            (invert (part1 (d_cnav_decoder s)) \<or> invert (part2 (d_cnav_decoder s))),
          d_CNAV_Message := fst (publish_navigation_data K ext msg (d_CNAV_Message s))\<rparr>)"
  by (simp add: new_frame_def Let_def case_prod_beta)

lemma new_frame_snd:
  "snd (new_frame K ext msg delay s) = snd (publish_navigation_data K ext msg (d_CNAV_Message s))"
  by (simp add: new_frame_def Let_def case_prod_beta)

lemma forward_output_fst:
  "fst (forward_output K inp pubs s) = s\<lparr>d_dump_file := d_dump_file (fst (forward_output K inp pubs s))\<rparr>"
  by (simp add: forward_output_def Let_def case_prod_beta)

lemma general_work_frame:
  assumes "cnav_msg_decoder_add_symbol ext (d_cnav_decoder s) (symbol_clip (in0 inp)) = (dec, Some (msg, delay))"
  shows "general_work K ext inp s =
           forward_output K inp
             (map Telemetry_to_trk (snd (telemetry_alarm s)) @ snd (new_frame K ext msg delay ((fst (telemetry_alarm s))\<lparr>d_cnav_decoder := dec\<rparr>)))
             (fst (new_frame K ext msg delay ((fst (telemetry_alarm s))\<lparr>d_cnav_decoder := dec\<rparr>)))"
  using assms by (simp add: general_work_def Let_def case_prod_beta telemetry_alarm_fst)

lemma general_work_no_frame:
  assumes "cnav_msg_decoder_add_symbol ext (d_cnav_decoder s) (symbol_clip (in0 inp)) = (dec, None)"
  shows "general_work K ext inp s =
           forward_output K inp (map Telemetry_to_trk (snd (telemetry_alarm s)))
             (no_new_frame K (in0 inp) ((fst (telemetry_alarm s))\<lparr>d_cnav_decoder := dec\<rparr>))"
  using assms by (simp add: general_work_def Let_def case_prod_beta telemetry_alarm_fst)

lemma forward_output_proj:
  "d_cnav_decoder (fst (forward_output K inp pubs s)) = d_cnav_decoder s"
  "d_TOW_at_current_symbol_ms (fst (forward_output K inp pubs s)) = d_TOW_at_current_symbol_ms s"
  "d_flag_valid_word (fst (forward_output K inp pubs s)) = d_flag_valid_word s"
  "d_flag_PLL_180_deg_phase_locked (fst (forward_output K inp pubs s)) = d_flag_PLL_180_deg_phase_locked s"
  "d_sent_tlm_failed_msg (fst (forward_output K inp pubs s)) = d_sent_tlm_failed_msg s"
  "d_sample_counter (fst (forward_output K inp pubs s)) = d_sample_counter s"
  "d_last_valid_preamble (fst (forward_output K inp pubs s)) = d_last_valid_preamble s"
  "d_max_symbols_without_valid_frame (fst (forward_output K inp pubs s)) = d_max_symbols_without_valid_frame s"
  by (subst forward_output_fst, simp)+

lemma forward_output_published:
  "published (snd (forward_output K inp pubs s)) = pubs"
  by (simp add: forward_output_def Let_def case_prod_beta)

lemma forward_output_out:
  "returned (snd (forward_output K inp pubs s)) = (if d_flag_valid_word s then 1 else 0)"
  "out0 (snd (forward_output K inp pubs s)) =
     (if d_flag_valid_word s
      then Some ((in0 inp)\<lparr>Carrier_phase_rads :=
                    (if d_flag_PLL_180_deg_phase_locked s
                     then Carrier_phase_rads (in0 inp) + GPS_L5_PI K
                     else Carrier_phase_rads (in0 inp)),
                  TOW_at_current_symbol_ms := d_TOW_at_current_symbol_ms s,
                  Flag_valid_word := True\<rparr>)
      else None)"
  by (simp_all add: forward_output_def Let_def case_prod_beta)

lemma general_work_eq:
  "general_work K ext inp s =
     (let s1 = fst (telemetry_alarm s);
          r = cnav_msg_decoder_add_symbol ext (d_cnav_decoder s) (symbol_clip (in0 inp));
          s2 = s1\<lparr>d_cnav_decoder := fst r\<rparr>
      in case snd r of
           Some (msg, delay) \<Rightarrow>
             forward_output K inp
               (map Telemetry_to_trk (snd (telemetry_alarm s)) @ snd (new_frame K ext msg delay s2))
               (fst (new_frame K ext msg delay s2))
         | None \<Rightarrow>
             forward_output K inp (map Telemetry_to_trk (snd (telemetry_alarm s)))
               (no_new_frame K (in0 inp) s2))"
  by (simp add: general_work_def Let_def case_prod_beta telemetry_alarm_fst split: option.splits)

subsection \<open>TOW update on a new word\<close>

text \<open>
  The projected TOW is computed in \<^verbatim>\<open>uint32_t\<close>. As long as the sum stays below \<open>2\<^sup>32\<close> (a TOW
  count of 17 bits and a delay of a few symbols are far below), its value is the one of
  the formula over the integers.
\<close>

lemma projected_tow_value:
  fixes t d :: "32 word"
  assumes "0 \<le> p" "uint t * 6000 + (uint d + 12) * p < 2 ^ 32"
  shows "uint (t * 6000 + (d + 12) * word_of_int p) = uint t * 6000 + (uint d + 12) * p"
proof -
  have "t * 6000 + (d + 12) * word_of_int p = (word_of_int (uint t * 6000 + (uint d + 12) * p) :: 32 word)"
    by simp
  moreover have "0 \<le> uint t * 6000 + (uint d + 12) * p"
    using assms(1) by simp
  ultimately show ?thesis
    using assms(2) by (simp only: uint_word_of_int) (simp add: take_bit_eq_mod)
qed

text \<open>
  Claim C1: when \<open>cnav_msg_decoder_add_symbol\<close> delivers a word, the projected TOW is
  \<open>msg.tow * 6000 + (delay + 12) * GPS_L5I_SYMBOL_PERIOD_MS\<close> (in \<^verbatim>\<open>uint32_t\<close>). If the stored
  TOW is nonzero and differs from the projected one by strictly more than one symbol
  period, the TOW is set to 0 and the valid-word flag is cleared (the last valid preamble
  stays). Otherwise the valid-word flag is set, the TOW is the projected one and the last
  valid preamble is the current sample counter. In both cases the FEC decoder state is
  the one that \<open>cnav_msg_decoder_add_symbol\<close> left: it is not reset.
\<close>

theorem tow_update_consistency_check:
  assumes "cnav_msg_decoder_add_symbol ext (d_cnav_decoder s) (symbol_clip (in0 inp)) = (dec, Some (msg, delay))"
  shows "let s' = fst (general_work K ext inp s);
             projected = tow msg * 6000 + (delay + 12) * word_of_int (GPS_L5I_SYMBOL_PERIOD_MS K);
             previous = d_TOW_at_current_symbol_ms s
         in d_cnav_decoder s' = dec \<and> d_sample_counter s' = d_sample_counter s + 1 \<and>
            (if previous \<noteq> 0 \<and> \<bar>uint projected - uint previous\<bar> > GPS_L5I_SYMBOL_PERIOD_MS K
             then d_TOW_at_current_symbol_ms s' = 0 \<and> \<not> d_flag_valid_word s'
                  \<and> d_last_valid_preamble s' = d_last_valid_preamble s
             else d_TOW_at_current_symbol_ms s' = projected \<and> d_flag_valid_word s'
                  \<and> d_last_valid_preamble s' = d_sample_counter s')"
  by (simp add: general_work_frame [OF assms] forward_output_proj new_frame_fst telemetry_alarm_fst
        update_tow_def Let_def)

text \<open>
  Witness: the stored TOW is 600000 ms and the word projects to 600120 ms, 120 ms away: the
  TOW is set to 0 and the valid-word flag cleared, the FEC decoder state left as it is.
\<close>

theorem tow_update_consistency_check_witness:
  "let s = (gps_l5_make_telemetry_decoder_gs test_constants stub_collaborators False)
             \<lparr>d_TOW_at_current_symbol_ms := 600000, d_flag_valid_word := True\<rparr>;
       s' = fst (general_work test_constants stub_collaborators symbol_found s)
   in d_TOW_at_current_symbol_ms s' = 0 \<and> \<not> d_flag_valid_word s'
      \<and> d_last_valid_preamble s' = 0 \<and> d_sample_counter s' = 1
      \<and> d_cnav_decoder s' = d_cnav_decoder s"
proof -
  define s where "s = (gps_l5_make_telemetry_decoder_gs test_constants stub_collaborators False)
             \<lparr>d_TOW_at_current_symbol_ms := 600000, d_flag_valid_word := True\<rparr>"
  have "cnav_msg_decoder_add_symbol stub_collaborators (d_cnav_decoder s) (symbol_clip (in0 symbol_found))
      = (d_cnav_decoder s, Some (test_msg, 0))"
    by (simp add: stub_collaborators_def symbol_clip_def symbol_found_def)
  from tow_update_consistency_check [OF this, of test_constants]
  have "let s' = fst (general_work test_constants stub_collaborators symbol_found s)
   in d_TOW_at_current_symbol_ms s' = 0 \<and> \<not> d_flag_valid_word s'
      \<and> d_last_valid_preamble s' = 0 \<and> d_sample_counter s' = 1
      \<and> d_cnav_decoder s' = d_cnav_decoder s"
    by (simp add: Let_def s_def test_msg_def test_constants_def gps_l5_make_telemetry_decoder_gs_def)
  then show ?thesis by (simp add: s_def Let_def)
qed

subsection \<open>TOW extrapolation without a new word\<close>

text \<open>
  Claim C6: on a symbol for which \<open>cnav_msg_decoder_add_symbol\<close> delivers no word, if the
  valid-word flag was set then the TOW grows by one symbol period (in \<^verbatim>\<open>uint32_t\<close>) and
  the flag after the symbol is the input's \<open>Flag_valid_symbol_output\<close>: it is cleared on
  that symbol when the input carries \<^verbatim>\<open>false\<close>. If the flag was not set, TOW and flag stay.
\<close>

theorem tow_extrapolation_without_new_word:
  assumes "cnav_msg_decoder_add_symbol ext (d_cnav_decoder s) (symbol_clip (in0 inp)) = (dec, None)"
  shows "let s' = fst (general_work K ext inp s)
         in if d_flag_valid_word s
            then d_TOW_at_current_symbol_ms s' =
                   d_TOW_at_current_symbol_ms s + word_of_int (GPS_L5I_SYMBOL_PERIOD_MS K)
                 \<and> d_flag_valid_word s' = Flag_valid_symbol_output (in0 inp)
            else d_TOW_at_current_symbol_ms s' = d_TOW_at_current_symbol_ms s
                 \<and> \<not> d_flag_valid_word s'"
  by (simp add: general_work_no_frame [OF assms] forward_output_proj telemetry_alarm_fst
        no_new_frame_def Let_def)

text \<open>
  Witness: a valid word at 600120 ms, no new word, and an input that is not validly
  tracked: the TOW becomes 600130 ms and the valid-word flag is cleared.
\<close>

theorem tow_extrapolation_without_new_word_witness:
  "let s = (gps_l5_make_telemetry_decoder_gs test_constants stub_collaborators False)
             \<lparr>d_TOW_at_current_symbol_ms := 600120, d_flag_valid_word := True\<rparr>;
       inp = symbol_lost\<lparr>in0 := (in0 symbol_lost)\<lparr>Flag_valid_symbol_output := False\<rparr>\<rparr>;
       s' = fst (general_work test_constants stub_collaborators inp s)
   in d_TOW_at_current_symbol_ms s' = 600130 \<and> \<not> d_flag_valid_word s'"
proof -
  define s where "s = (gps_l5_make_telemetry_decoder_gs test_constants stub_collaborators False)
             \<lparr>d_TOW_at_current_symbol_ms := 600120, d_flag_valid_word := True\<rparr>"
  define inp where "inp = symbol_lost\<lparr>in0 := (in0 symbol_lost)\<lparr>Flag_valid_symbol_output := False\<rparr>\<rparr>"
  have "cnav_msg_decoder_add_symbol stub_collaborators (d_cnav_decoder s) (symbol_clip (in0 inp))
      = (d_cnav_decoder s, None)"
    by (simp add: stub_collaborators_def symbol_clip_def symbol_lost_def inp_def)
  from tow_extrapolation_without_new_word [OF this, of test_constants]
  have "let s' = fst (general_work test_constants stub_collaborators inp s)
   in d_TOW_at_current_symbol_ms s' = 600130 \<and> \<not> d_flag_valid_word s'"
    by (simp add: Let_def s_def inp_def symbol_lost_def test_constants_def)
  then show ?thesis by (simp add: s_def inp_def Let_def)
qed

subsection \<open>Polarity correction\<close>

lemma relocking_found:
  "cnav_msg_decoder_add_symbol relocking_collaborators dec (symbol_clip (in0 symbol_found))
     = (dec, Some (test_msg, 0))"
  by (simp add: relocking_collaborators_def stub_collaborators_def symbol_clip_def symbol_found_def)

lemma relocking_lost:
  "cnav_msg_decoder_add_symbol relocking_collaborators dec (symbol_clip (in0 symbol_lost))
     = (dec\<lparr>part1 := (part1 dec)\<lparr>invert := True\<rparr>\<rparr>, None)"
  by (simp add: relocking_collaborators_def stub_collaborators_def symbol_clip_def symbol_lost_def)

text \<open>
  Claim C7, as stated: whenever either part of the FEC decoder is inverted, \<open>\<pi>\<close> is added to
  the phase of the outgoing record. It fails. From the constructor, a word is decoded
  with no part inverted; on the next symbol the FEC decoder sets \<open>part1.invert\<close> and
  delivers no word: the record of that symbol is forwarded (return value 1) with the
  input's \<open>Carrier_phase_rads\<close>, without \<open>GPS_L5_PI\<close>.
\<close>

theorem phase_not_corrected_before_next_word_counterexample:
  "let s0 = gps_l5_make_telemetry_decoder_gs test_constants relocking_collaborators False;
       (s1, out1) = general_work test_constants relocking_collaborators symbol_found s0;
       (s2, out2) = general_work test_constants relocking_collaborators symbol_lost s1
   in invert (part1 (d_cnav_decoder s2))
      \<and> returned out2 = 1
      \<and> map_option Carrier_phase_rads (out0 out2) = Some (Carrier_phase_rads (in0 symbol_lost))
      \<and> Carrier_phase_rads (in0 symbol_lost) \<noteq> Carrier_phase_rads (in0 symbol_lost) + GPS_L5_PI test_constants"
proof -
  define s0 where "s0 = gps_l5_make_telemetry_decoder_gs test_constants relocking_collaborators False"
  define s1 where "s1 = fst (general_work test_constants relocking_collaborators symbol_found s0)"
  have s0: "d_TOW_at_current_symbol_ms s0 = 0" "\<not> invert (part1 (d_cnav_decoder s0))"
      "\<not> invert (part2 (d_cnav_decoder s0))"
    by (simp_all add: s0_def gps_l5_make_telemetry_decoder_gs_def relocking_collaborators_def
        stub_collaborators_def)
  have s1: "d_flag_valid_word s1" "\<not> d_flag_PLL_180_deg_phase_locked s1"
    using s0
    by (simp_all add: s1_def general_work_frame [OF relocking_found] forward_output_proj
        new_frame_fst telemetry_alarm_fst update_tow_def Let_def)
  have lost: "Flag_valid_symbol_output (in0 symbol_lost)"
    by (simp add: symbol_lost_def)
  from general_work_no_frame [OF relocking_lost, of test_constants s1] s1 lost
  have "invert (part1 (d_cnav_decoder (fst (general_work test_constants relocking_collaborators symbol_lost s1))))
      \<and> returned (snd (general_work test_constants relocking_collaborators symbol_lost s1)) = 1
      \<and> map_option Carrier_phase_rads (out0 (snd (general_work test_constants relocking_collaborators symbol_lost s1)))
          = Some (Carrier_phase_rads (in0 symbol_lost))"
    by (simp add: forward_output_proj forward_output_out telemetry_alarm_fst no_new_frame_def Let_def)
  moreover have "Carrier_phase_rads (in0 symbol_lost) \<noteq> Carrier_phase_rads (in0 symbol_lost) + GPS_L5_PI test_constants"
    by (simp add: test_constants_def)
  ultimately show ?thesis
    by (simp add: s0_def [symmetric] s1_def [symmetric] case_prod_beta Let_def)
qed

text \<open>
  Claim C7, amended: when a word is delivered, the block records in
  \<open>d_flag_PLL_180_deg_phase_locked\<close> whether either part of the FEC decoder is inverted;
  without a new word the recorded flag stays, whatever the parts of the FEC decoder say.
  When the valid-word flag is set after the symbol, a record is forwarded, and its
  \<open>Carrier_phase_rads\<close> is the input's plus \<open>GPS_L5_PI\<close> if the recorded flag is set and the
  input's unchanged if it is not; when the valid-word flag is not set, nothing is
  forwarded.
\<close>

theorem phase_inversion_correction:
  "let (s', out) = general_work K ext inp s;
       (dec, frame) = cnav_msg_decoder_add_symbol ext (d_cnav_decoder s) (symbol_clip (in0 inp))
   in d_flag_PLL_180_deg_phase_locked s' =
        (case frame of
           Some w \<Rightarrow> invert (part1 dec) \<or> invert (part2 dec)
         | None \<Rightarrow> d_flag_PLL_180_deg_phase_locked s)
      \<and> (if d_flag_valid_word s'
          then \<exists>r. out0 out = Some r
                 \<and> Carrier_phase_rads r =
                     (if d_flag_PLL_180_deg_phase_locked s'
                      then Carrier_phase_rads (in0 inp) + GPS_L5_PI K
                      else Carrier_phase_rads (in0 inp))
          else out0 out = None)"
  by (simp add: general_work_eq Let_def case_prod_beta forward_output_proj forward_output_out
        new_frame_fst update_tow_def no_new_frame_def telemetry_alarm_fst
        split: option.splits)

text \<open>
  Witness: a word is decoded while the first part of the FEC decoder is inverted: the
  flag is recorded, the word is valid, and the record goes out with \<open>GPS_L5_PI\<close> added.
\<close>

theorem phase_inversion_correction_witness:
  "let s = fresh_decoder
             \<lparr>d_cnav_decoder :=
                \<lparr>part1 = \<lparr>invert = True, part_state = ()\<rparr>, part2 = \<lparr>invert = False, part_state = ()\<rparr>\<rparr>\<rparr>;
       (s', out) = general_work test_constants stub_collaborators symbol_found s
   in d_flag_PLL_180_deg_phase_locked s' \<and> d_flag_valid_word s'
      \<and> map_option Carrier_phase_rads (out0 out)
          = Some (Carrier_phase_rads (in0 symbol_found) + GPS_L5_PI test_constants)"
proof -
  define s where "s = fresh_decoder
             \<lparr>d_cnav_decoder :=
                \<lparr>part1 = \<lparr>invert = True, part_state = ()\<rparr>, part2 = \<lparr>invert = False, part_state = ()\<rparr>\<rparr>\<rparr>"
  have dec: "cnav_msg_decoder_add_symbol stub_collaborators (d_cnav_decoder s) (symbol_clip (in0 symbol_found))
      = (d_cnav_decoder s, Some (test_msg, 0))"
    by (simp add: stub_collaborators_def symbol_clip_def symbol_found_def)
  have tow: "d_TOW_at_current_symbol_ms s = 0"
    by (simp add: s_def fresh_decoder_def gps_l5_make_telemetry_decoder_gs_def)
  have valid: "d_flag_valid_word (fst (general_work test_constants stub_collaborators symbol_found s))"
    using tow
    by (simp add: general_work_frame [OF dec] forward_output_proj new_frame_fst telemetry_alarm_fst
        update_tow_def Let_def)
  have inv: "invert (part1 (d_cnav_decoder s))"
    by (simp add: s_def)
  from phase_inversion_correction [of test_constants stub_collaborators symbol_found s] valid inv
  have "d_flag_PLL_180_deg_phase_locked (fst (general_work test_constants stub_collaborators symbol_found s))
      \<and> map_option Carrier_phase_rads (out0 (snd (general_work test_constants stub_collaborators symbol_found s)))
          = Some (Carrier_phase_rads (in0 symbol_found) + GPS_L5_PI test_constants)"
    by (auto simp add: dec case_prod_beta Let_def)
  with valid show ?thesis
    by (simp add: s_def [symmetric] case_prod_beta Let_def)
qed

subsection \<open>Forwarding\<close>


subsection \<open>Diagnostic dump\<close>

lemma forward_output_decoding:
  "decoding_state (fst (forward_output K inp pubs s)) = decoding_state s"
  by (subst forward_output_fst) (simp add: decoding_state_def)

lemma forward_output_decoding_output:
  "decoding_output (snd (forward_output K inp pubs s)) =
     decoding_output (snd (forward_output K (inp\<lparr>dump_fault := f\<rparr>) pubs (s\<lparr>d_dump_file := fl\<rparr>)))"
  by (simp add: forward_output_def decoding_output_def Let_def case_prod_beta)

lemma telemetry_alarm_dump:
  "telemetry_alarm (s\<lparr>d_dump_file := fl\<rparr>) =
     ((fst (telemetry_alarm s))\<lparr>d_dump_file := fl\<rparr>, snd (telemetry_alarm s))"
  by (simp add: telemetry_alarm_def Let_def)

lemma update_tow_dump:
  "update_tow K msg delay (s\<lparr>d_dump_file := fl\<rparr>) = (update_tow K msg delay s)\<lparr>d_dump_file := fl\<rparr>"
  by (simp add: update_tow_def Let_def)

lemma new_frame_dump:
  "new_frame K ext msg delay (s\<lparr>d_dump_file := fl\<rparr>) =
     ((fst (new_frame K ext msg delay s))\<lparr>d_dump_file := fl\<rparr>, snd (new_frame K ext msg delay s))"
  by (simp add: new_frame_def Let_def case_prod_beta update_tow_def)

lemma no_new_frame_dump:
  "no_new_frame K c (s\<lparr>d_dump_file := fl\<rparr>) = (no_new_frame K c s)\<lparr>d_dump_file := fl\<rparr>"
  by (simp add: no_new_frame_def Let_def)
lemma dump_decoder_commute:
  "s\<lparr>d_dump_file := fl, d_cnav_decoder := dec\<rparr> = s\<lparr>d_cnav_decoder := dec, d_dump_file := fl\<rparr>"
  by (cases s) simp

lemma decoding_state_dump: "decoding_state (s\<lparr>d_dump_file := fl\<rparr>) = decoding_state s"
  by (simp add: decoding_state_def)

lemma general_work_dump:
  "decoding_state (fst (general_work K ext (inp\<lparr>dump_fault := f\<rparr>) (s\<lparr>d_dump_file := fl\<rparr>)))
     = decoding_state (fst (general_work K ext inp s))"
  "decoding_output (snd (general_work K ext (inp\<lparr>dump_fault := f\<rparr>) (s\<lparr>d_dump_file := fl\<rparr>)))
     = decoding_output (snd (general_work K ext inp s))"
proof -
  let ?r = "cnav_msg_decoder_add_symbol ext (d_cnav_decoder s) (symbol_clip (in0 inp))"
  show "decoding_state (fst (general_work K ext (inp\<lparr>dump_fault := f\<rparr>) (s\<lparr>d_dump_file := fl\<rparr>)))
     = decoding_state (fst (general_work K ext inp s))"
    by (cases "snd ?r")
      (auto simp add: general_work_eq Let_def forward_output_decoding telemetry_alarm_dump
        new_frame_dump no_new_frame_dump decoding_state_dump dump_decoder_commute)
  show "decoding_output (snd (general_work K ext (inp\<lparr>dump_fault := f\<rparr>) (s\<lparr>d_dump_file := fl\<rparr>)))
     = decoding_output (snd (general_work K ext inp s))"
    by (cases "snd ?r")
      (auto simp add: general_work_eq Let_def telemetry_alarm_dump
        new_frame_dump no_new_frame_dump dump_decoder_commute
        forward_output_decoding_output [where f = f and fl = fl, symmetric])
qed

lemma decoding_state_eqD:
  "decoding_state s = decoding_state t \<Longrightarrow> t = s\<lparr>d_dump_file := d_dump_file t\<rparr>"
  unfolding decoding_state_def
  by (cases s, cases t) simp

lemma forward_output_logged:
  "logged (snd (forward_output K inp pubs s)) = []
   \<or> logged (snd (forward_output K inp pubs s)) = [Warning ''Exception writing Telemetry GPS L5 dump file'']"
  by (simp add: forward_output_def Let_def case_prod_beta)

lemma general_work_logged:
  "logged (snd (general_work K ext inp s)) = []
   \<or> logged (snd (general_work K ext inp s)) = [Warning ''Exception writing Telemetry GPS L5 dump file'']"
  by (cases "snd (cnav_msg_decoder_add_symbol ext (d_cnav_decoder s) (symbol_clip (in0 inp)))")
    (simp_all add: general_work_eq Let_def case_prod_beta forward_output_logged)

lemma run_decoding:
  "decoding_state s = decoding_state t \<Longrightarrow>
   decoding_state (fst (run K ext inps s)) = decoding_state (fst (run K ext (without_faults inps) t))
   \<and> map decoding_output (snd (run K ext inps s)) = map decoding_output (snd (run K ext (without_faults inps) t))"
proof (induction inps arbitrary: s t)
  case Nil
  then show ?case by (simp add: without_faults_def)
next
  case (Cons inp inps)
  from Cons.prems have t: "t = s\<lparr>d_dump_file := d_dump_file t\<rparr>" by (rule decoding_state_eqD)
  have st: "decoding_state (fst (general_work K ext inp s)) =
        decoding_state (fst (general_work K ext (inp\<lparr>dump_fault := None\<rparr>) t))"
    by (subst t) (simp only: general_work_dump)
  have ou: "decoding_output (snd (general_work K ext inp s)) =
        decoding_output (snd (general_work K ext (inp\<lparr>dump_fault := None\<rparr>) t))"
    by (subst t) (simp only: general_work_dump)
  from Cons.IH [OF st] ou show ?case
    by (simp add: without_faults_def case_prod_beta Let_def)
qed

lemma run_logged:
  "list_all (\<lambda>out. logged out = [] \<or> logged out = [Warning ''Exception writing Telemetry GPS L5 dump file''])
     (snd (run K ext inps s))"
  by (induction inps arbitrary: s) (simp_all add: case_prod_beta Let_def general_work_logged)

lemma forward_output_logged_eq:
  "logged (snd (forward_output K inp pubs s)) =
     (if d_dump s \<and> d_flag_valid_word s \<and> (\<exists>k. dump_fault inp = Some k \<and> k < 3)
      then [Warning ''Exception writing Telemetry GPS L5 dump file''] else [])"
  by (auto simp add: forward_output_def Let_def case_prod_beta dump_write_def split: option.splits)

lemma general_work_logged_eq:
  "logged (snd (general_work K ext inp s)) =
     (if d_dump s \<and> d_flag_valid_word (fst (general_work K ext inp s))
         \<and> (\<exists>k. dump_fault inp = Some k \<and> k < 3)
      then [Warning ''Exception writing Telemetry GPS L5 dump file''] else [])"
  by (cases "snd (cnav_msg_decoder_add_symbol ext (d_cnav_decoder s) (symbol_clip (in0 inp)))")
    (simp_all add: general_work_eq Let_def case_prod_beta forward_output_logged_eq forward_output_proj
      new_frame_fst update_tow_def no_new_frame_def telemetry_alarm_fst)

text \<open>
  Claim C8: whichever writes to the diagnostic file throw while a sequence of symbols is
  processed, the state of the block apart from the content of that file (so TOW,
  validity, counters, FEC decoder and assembler), the return values, the forwarded
  records and the published messages are those of the run in which every write comes
  through. The log of a call holds the warning "Exception writing Telemetry GPS L5 dump
  file", once, exactly when a write of that call throws (dump enabled, valid word after
  the symbol, and one of the three writes failing); it is empty otherwise.
\<close>

theorem dump_failure_does_not_affect_decoding:
  "decoding_state (fst (run K ext inps s)) = decoding_state (fst (run K ext (without_faults inps) s))
   \<and> map decoding_output (snd (run K ext inps s))
       = map decoding_output (snd (run K ext (without_faults inps) s))
   \<and> list_all (\<lambda>out. logged out = [] \<or> logged out = [Warning ''Exception writing Telemetry GPS L5 dump file''])
       (snd (run K ext inps s))
   \<and> logged (snd (general_work K ext inp s)) =
       (if d_dump s \<and> d_flag_valid_word (fst (general_work K ext inp s))
           \<and> (\<exists>k. dump_fault inp = Some k \<and> k < 3)
        then [Warning ''Exception writing Telemetry GPS L5 dump file''] else [])"
  using run_decoding [OF refl, where s = s and K = K and ext = ext and inps = inps]
    run_logged [where s = s and K = K and ext = ext and inps = inps]
    general_work_logged_eq [of K ext inp s]
  by simp

text \<open>
  Witness: dump enabled, a valid word, and the second write of the call throwing: the
  word stays valid and the warning is logged.
\<close>

theorem dump_failure_does_not_affect_decoding_witness:
  "let s = fresh_decoder\<lparr>d_dump := True, d_flag_valid_word := True, d_TOW_at_current_symbol_ms := 600120\<rparr>;
       (s', out) = general_work test_constants stub_collaborators (symbol_lost\<lparr>dump_fault := Some 1\<rparr>) s
   in d_flag_valid_word s'
      \<and> logged out = [Warning ''Exception writing Telemetry GPS L5 dump file'']"
proof -
  define s where "s = fresh_decoder\<lparr>d_dump := True, d_flag_valid_word := True, d_TOW_at_current_symbol_ms := 600120\<rparr>"
  define inp where "inp = symbol_lost\<lparr>dump_fault := Some 1\<rparr>"
  have inp: "Flag_valid_symbol_output (in0 inp)" "dump_fault inp = Some 1"
    by (simp_all add: inp_def symbol_lost_def)
  have s: "d_flag_valid_word s" "d_dump s"
    by (simp_all add: s_def)
  have dec: "cnav_msg_decoder_add_symbol stub_collaborators (d_cnav_decoder s) (symbol_clip (in0 inp))
      = (d_cnav_decoder s, None)"
    by (simp add: stub_collaborators_def symbol_clip_def symbol_lost_def inp_def)
  from general_work_no_frame [OF dec, of test_constants] s inp
  have valid: "d_flag_valid_word (fst (general_work test_constants stub_collaborators inp s))"
    by (simp add: forward_output_proj telemetry_alarm_fst no_new_frame_def Let_def)
  with s inp dump_failure_does_not_affect_decoding [of test_constants stub_collaborators "[]" s inp]
  have "logged (snd (general_work test_constants stub_collaborators inp s))
      = [Warning ''Exception writing Telemetry GPS L5 dump file'']"
    by simp
  with valid show ?thesis
    unfolding s_def inp_def by (simp add: case_prod_beta Let_def)
qed

subsection \<open>Telemetry alarm\<close>

lemma publish_no_alarm:
  "filter is_alarm (snd (publish_navigation_data K ext msg nav)) = []"
  by (simp add: publish_navigation_data_def Let_def case_prod_beta)

lemma general_work_alarm:
  "filter is_alarm (published (snd (general_work K ext inp s))) =
     (if \<not> d_sent_tlm_failed_msg s \<and> alarm_due s then [Telemetry_to_trk 1] else [])"
  by (cases "snd (cnav_msg_decoder_add_symbol ext (d_cnav_decoder s) (symbol_clip (in0 inp)))")
    (simp_all add: general_work_eq Let_def case_prod_beta forward_output_published
      new_frame_snd publish_no_alarm telemetry_alarm_snd)

lemma general_work_sent:
  "d_sent_tlm_failed_msg (fst (general_work K ext inp s)) = (d_sent_tlm_failed_msg s \<or> alarm_due s)"
  by (cases "snd (cnav_msg_decoder_add_symbol ext (d_cnav_decoder s) (symbol_clip (in0 inp)))")
    (simp_all add: general_work_eq Let_def case_prod_beta forward_output_proj
      new_frame_fst update_tow_def no_new_frame_def telemetry_alarm_fst)

lemma general_work_counter:
  "d_sample_counter (fst (general_work K ext inp s)) = d_sample_counter s + 1"
  by (cases "snd (cnav_msg_decoder_add_symbol ext (d_cnav_decoder s) (symbol_clip (in0 inp)))")
    (simp_all add: general_work_eq Let_def case_prod_beta forward_output_proj
      new_frame_fst update_tow_def no_new_frame_def telemetry_alarm_fst)

lemma general_work_threshold:
  "d_max_symbols_without_valid_frame (fst (general_work K ext inp s)) = d_max_symbols_without_valid_frame s"
  by (cases "snd (cnav_msg_decoder_add_symbol ext (d_cnav_decoder s) (symbol_clip (in0 inp)))")
    (simp_all add: general_work_eq Let_def case_prod_beta forward_output_proj
      new_frame_fst update_tow_def no_new_frame_def telemetry_alarm_fst)

lemma alarms_Cons: "alarms (out # outs) = alarms [out] + alarms outs"
  by (simp add: alarms_def)

lemma alarms_append: "alarms (outs1 @ outs2) = alarms outs1 + alarms outs2"
  by (simp add: alarms_def)

lemma alarms_single:
  "alarms [snd (general_work K ext inp s)] = (if \<not> d_sent_tlm_failed_msg s \<and> alarm_due s then 1 else 0)"
  by (simp add: alarms_def general_work_alarm)

lemma run_Cons:
  "run K ext (inp # inps) s =
     (fst (run K ext inps (fst (general_work K ext inp s))),
      snd (general_work K ext inp s) # snd (run K ext inps (fst (general_work K ext inp s))))"
  by (simp add: case_prod_beta Let_def)

lemma run_append:
  "run K ext (xs @ ys) s =
     (fst (run K ext ys (fst (run K ext xs s))),
      snd (run K ext xs s) @ snd (run K ext ys (fst (run K ext xs s))))"
  by (induction xs arbitrary: s) (simp_all add: case_prod_beta Let_def)

lemma run_sent:
  "d_sent_tlm_failed_msg s \<Longrightarrow>
   alarms (snd (run K ext inps s)) = 0 \<and> d_sent_tlm_failed_msg (fst (run K ext inps s))"
proof (induction inps arbitrary: s)
  case Nil
  then show ?case by (simp add: alarms_def)
next
  case (Cons inp inps)
  from Cons.prems have "d_sent_tlm_failed_msg (fst (general_work K ext inp s))"
    by (simp add: general_work_sent)
  from Cons.IH [OF this] Cons.prems show ?case
    by (simp only: run_Cons fst_conv snd_conv alarms_Cons [of "snd (general_work K ext inp s)"] alarms_single)
      simp
qed

lemma run_alarms_le: "alarms (snd (run K ext inps s)) \<le> 1"
proof (induction inps arbitrary: s)
  case Nil
  show ?case by (simp add: alarms_def)
next
  case (Cons inp inps)
  show ?case
  proof (cases "\<not> d_sent_tlm_failed_msg s \<and> alarm_due s")
    case True
    then have "d_sent_tlm_failed_msg (fst (general_work K ext inp s))"
      by (simp add: general_work_sent)
    then have "alarms (snd (run K ext inps (fst (general_work K ext inp s)))) = 0"
      using run_sent by blast
    then show ?thesis
      by (simp only: run_Cons snd_conv alarms_Cons [of "snd (general_work K ext inp s)"] alarms_single)
        simp
  next
    case False
    with Cons.IH [of "fst (general_work K ext inp s)"] show ?thesis
      by (simp only: run_Cons snd_conv alarms_Cons [of "snd (general_work K ext inp s)"] alarms_single)
        simp
  qed
qed

text \<open>
  Claim C2, amended: over any sequence of calls of \<^verbatim>\<open>general_work\<close> from any state, at
  most one "telemetry lost" message is published. A call publishes it exactly when the
  alarm-sent flag is not set and the incremented sample counter minus the last valid
  preamble strictly exceeds the threshold, and it then sets the flag. Once the flag is
  set no call publishes the message or clears the flag, whatever is decoded; \<open>reset\<close>
  clears it.
\<close>

theorem telemetry_alarm_once_until_reset:
  "alarms (snd (run K ext inps s)) \<le> 1
   \<and> (d_sent_tlm_failed_msg s \<longrightarrow>
        alarms (snd (run K ext inps s)) = 0 \<and> d_sent_tlm_failed_msg (fst (run K ext inps s)))
   \<and> alarms [snd (general_work K ext inp s)] =
        (if \<not> d_sent_tlm_failed_msg s
            \<and> d_sample_counter s + 1 - d_last_valid_preamble s > ucast (d_max_symbols_without_valid_frame s)
         then 1 else 0)
   \<and> d_sent_tlm_failed_msg (fst (general_work K ext inp s)) =
        (d_sent_tlm_failed_msg s
         \<or> d_sample_counter s + 1 - d_last_valid_preamble s > ucast (d_max_symbols_without_valid_frame s))
   \<and> \<not> d_sent_tlm_failed_msg (reset s)"
  using run_alarms_le [of K ext inps s] run_sent [of s K ext inps]
  by (simp add: alarms_single general_work_sent alarm_due_def reset_def)

text \<open>
  Witness: with the alarm-sent flag set, a symbol that decodes a word and a symbol that
  does not publish no alarm and leave the flag set.
\<close>

theorem telemetry_alarm_once_until_reset_witness:
  "let s = (gps_l5_make_telemetry_decoder_gs test_constants stub_collaborators False)
             \<lparr>d_sent_tlm_failed_msg := True\<rparr>;
       (s', outs) = run test_constants stub_collaborators [symbol_found, symbol_lost] s
   in alarms outs = 0 \<and> d_sent_tlm_failed_msg s'"
  using telemetry_alarm_once_until_reset [of test_constants stub_collaborators "[symbol_found, symbol_lost]"
      "(gps_l5_make_telemetry_decoder_gs test_constants stub_collaborators False)\<lparr>d_sent_tlm_failed_msg := True\<rparr>"
      symbol_found]
  by (simp add: Let_def case_prod_beta)

subsection \<open>Telemetry alarm: a run from the constructor\<close>

lemma counter_below_threshold: "k < 6000 \<Longrightarrow> \<not> (6000 :: 64 word) < of_nat k + 1"
proof -
  assume k: "k < 6000"
  have "unat (of_nat k + 1 :: 64 word) = Suc k"
    using k by (intro of_nat_inverse) simp_all
  with k show ?thesis by (simp add: word_less_nat_alt)
qed

lemma lost_step:
  assumes "k < 6000"
  shows "general_work test_constants stub_collaborators symbol_lost (fresh_decoder\<lparr>d_sample_counter := of_nat k\<rparr>)
         = (fresh_decoder\<lparr>d_sample_counter := of_nat (Suc k)\<rparr>, quiet_output)"
  using counter_below_threshold [OF assms]
  by (simp add: general_work_def telemetry_alarm_def no_new_frame_def forward_output_def
      fresh_decoder_def gps_l5_make_telemetry_decoder_gs_def test_constants_def stub_collaborators_def
      symbol_lost_def symbol_clip_def quiet_output_def Let_def)

lemma lost_run:
  "k + n \<le> 6000 \<Longrightarrow>
   run test_constants stub_collaborators (replicate n symbol_lost) (fresh_decoder\<lparr>d_sample_counter := of_nat k\<rparr>)
     = (fresh_decoder\<lparr>d_sample_counter := of_nat (k + n)\<rparr>, replicate n quiet_output)"
proof (induction n arbitrary: k)
  case 0
  show ?case by simp
next
  case (Suc n)
  from Suc.prems have "k < 6000" "Suc k + n \<le> 6000" by simp_all
  from lost_step [OF this(1)] Suc.IH [OF this(2)] show ?case by simp
qed

lemma fresh_decoder_counter: "fresh_decoder\<lparr>d_sample_counter := 0\<rparr> = fresh_decoder"
  by (simp add: fresh_decoder_def gps_l5_make_telemetry_decoder_gs_def)

lemma lost_6000:
  "run test_constants stub_collaborators (replicate 6000 symbol_lost) fresh_decoder
     = (fresh_decoder\<lparr>d_sample_counter := 6000\<rparr>, replicate 6000 quiet_output)"
proof -
  have "run test_constants stub_collaborators (replicate 6000 symbol_lost) (fresh_decoder\<lparr>d_sample_counter := of_nat 0\<rparr>)
     = (fresh_decoder\<lparr>d_sample_counter := of_nat (0 + 6000)\<rparr>, replicate 6000 quiet_output)"
    by (rule lost_run) simp
  then show ?thesis
    by (simp add: fresh_decoder_counter)
qed

lemma alarms_quiet_output: "alarms (replicate n quiet_output) = 0"
  by (induction n) (simp_all add: alarms_def quiet_output_def)

lemma alarm_step:
  "alarm_due (fresh_decoder\<lparr>d_sample_counter := 6000\<rparr>) \<and> \<not> d_sent_tlm_failed_msg (fresh_decoder\<lparr>d_sample_counter := 6000\<rparr>)"
  by (simp add: alarm_due_def fresh_decoder_def gps_l5_make_telemetry_decoder_gs_def test_constants_def)

lemma found_step:
  assumes "d_sample_counter s = 6001" "d_TOW_at_current_symbol_ms s = 0"
  shows "d_flag_valid_word (fst (general_work test_constants stub_collaborators symbol_found s))
    \<and> d_last_valid_preamble (fst (general_work test_constants stub_collaborators symbol_found s)) = 6002
    \<and> d_sample_counter (fst (general_work test_constants stub_collaborators symbol_found s)) = 6002"
proof -
  have "cnav_msg_decoder_add_symbol stub_collaborators (d_cnav_decoder s) (symbol_clip (in0 symbol_found))
      = (d_cnav_decoder s, Some (test_msg, 0))"
    by (simp add: stub_collaborators_def symbol_clip_def symbol_found_def)
  from general_work_frame [OF this] assms show ?thesis
    by (simp add: forward_output_proj new_frame_fst telemetry_alarm_fst update_tow_def Let_def)
qed

lemma lost_step_last_valid:
  "d_last_valid_preamble (fst (general_work test_constants stub_collaborators symbol_lost s)) = d_last_valid_preamble s"
proof -
  have "cnav_msg_decoder_add_symbol stub_collaborators (d_cnav_decoder s) (symbol_clip (in0 symbol_lost))
      = (d_cnav_decoder s, None)"
    by (simp add: stub_collaborators_def symbol_clip_def symbol_lost_def)
  from general_work_no_frame [OF this] show ?thesis
    by (simp add: forward_output_proj telemetry_alarm_fst no_new_frame_def Let_def)
qed

lemma lost_step_tow:
  "\<not> d_flag_valid_word s \<Longrightarrow>
   d_TOW_at_current_symbol_ms (fst (general_work test_constants stub_collaborators symbol_lost s))
     = d_TOW_at_current_symbol_ms s"
proof -
  assume a: "\<not> d_flag_valid_word s"
  have "cnav_msg_decoder_add_symbol stub_collaborators (d_cnav_decoder s) (symbol_clip (in0 symbol_lost))
      = (d_cnav_decoder s, None)"
    by (simp add: stub_collaborators_def symbol_clip_def symbol_lost_def)
  from general_work_no_frame [OF this] a show ?thesis
    by (simp add: forward_output_proj telemetry_alarm_fst no_new_frame_def Let_def)
qed

lemma lost_run_last_valid:
  "d_last_valid_preamble (fst (run test_constants stub_collaborators (replicate n symbol_lost) s))
     = d_last_valid_preamble s"
  by (induction n arbitrary: s) (simp_all add: case_prod_beta Let_def lost_step_last_valid)

lemma run_counter:
  "d_sample_counter (fst (run K ext inps s)) = d_sample_counter s + of_nat (length inps)"
  by (induction inps arbitrary: s) (simp_all add: case_prod_beta Let_def general_work_counter)

lemma run_threshold:
  "d_max_symbols_without_valid_frame (fst (run K ext inps s)) = d_max_symbols_without_valid_frame s"
  by (induction inps arbitrary: s) (simp_all add: case_prod_beta Let_def general_work_threshold)

text \<open>
  Claim C2, as stated: a successful consistent decode clears the alarm-sent flag, so that
  a later loss episode raises a new alarm. It fails. From the constructor, 6001 symbols
  without a word raise the alarm; the word decoded on the next symbol is accepted (the
  valid-word flag is set and the last valid preamble is the sample counter) and the
  alarm-sent flag is still set; after 6001 more symbols without a word the counter is
  6001 past the last valid preamble, above the threshold of 6000, and no second alarm has
  been published.
\<close>

theorem telemetry_alarm_not_rearmed_counterexample:
  "let s0 = gps_l5_make_telemetry_decoder_gs test_constants stub_collaborators False;
       (s1, outs1) = run test_constants stub_collaborators (replicate 6001 symbol_lost @ [symbol_found]) s0;
       (s2, outs2) = run test_constants stub_collaborators (replicate 6001 symbol_lost) s1
   in alarms outs1 = 1
      \<and> d_flag_valid_word s1 \<and> d_last_valid_preamble s1 = d_sample_counter s1
      \<and> d_sent_tlm_failed_msg s1
      \<and> d_sample_counter s2 - d_last_valid_preamble s2 = 6001
      \<and> (ucast (d_max_symbols_without_valid_frame s2) :: 64 word) = 6000
      \<and> alarms outs2 = 0"
proof -
  define sa where "sa = fresh_decoder\<lparr>d_sample_counter := 6000\<rparr>"
  define sb where "sb = fst (general_work test_constants stub_collaborators symbol_lost sa)"
  define s1 where "s1 = fst (general_work test_constants stub_collaborators symbol_found sb)"
  define s2 where "s2 = fst (run test_constants stub_collaborators (replicate 6001 symbol_lost) s1)"
  have r6001: "replicate 6001 symbol_lost = replicate 6000 symbol_lost @ [symbol_lost]"
  proof -
    have "(6001 :: nat) = Suc 6000" by simp
    then show ?thesis by (simp only: replicate_Suc replicate_append_same)
  qed
  have run1: "run test_constants stub_collaborators (replicate 6001 symbol_lost @ [symbol_found]) fresh_decoder
      = (s1, replicate 6000 quiet_output
             @ [snd (general_work test_constants stub_collaborators symbol_lost sa),
                snd (general_work test_constants stub_collaborators symbol_found sb)])"
    by (simp add: r6001 run_append lost_6000 sa_def sb_def s1_def case_prod_beta Let_def)
  have sb_sent: "d_sent_tlm_failed_msg sb"
    using alarm_step by (simp add: sb_def sa_def general_work_sent)
  have sb_counter: "d_sample_counter sb = 6001"
    by (simp add: sb_def sa_def general_work_counter)
  have sb_tow: "d_TOW_at_current_symbol_ms sb = 0"
    by (simp add: sb_def sa_def lost_step_tow fresh_decoder_def gps_l5_make_telemetry_decoder_gs_def)
  note s1_facts = found_step [OF sb_counter sb_tow, folded s1_def]
  have s1_sent: "d_sent_tlm_failed_msg s1"
    using sb_sent by (simp add: s1_def general_work_sent)
  have s1_thr: "d_max_symbols_without_valid_frame s1 = 6000"
    by (simp add: s1_def sb_def sa_def general_work_threshold fresh_decoder_def
        gps_l5_make_telemetry_decoder_gs_def test_constants_def)
  have a1: "alarms [snd (general_work test_constants stub_collaborators symbol_lost sa)] = 1"
    using alarm_step by (simp add: alarms_single sa_def)
  have a2: "alarms [snd (general_work test_constants stub_collaborators symbol_found sb)] = 0"
    using sb_sent by (simp add: alarms_single)
  have "alarms [snd (general_work test_constants stub_collaborators symbol_lost sa),
                snd (general_work test_constants stub_collaborators symbol_found sb)] = 1"
    using a1 a2
    by (simp only: alarms_Cons [of "snd (general_work test_constants stub_collaborators symbol_lost sa)"
          "[snd (general_work test_constants stub_collaborators symbol_found sb)]"])
  then have outs1: "alarms (replicate 6000 quiet_output
             @ [snd (general_work test_constants stub_collaborators symbol_lost sa),
                snd (general_work test_constants stub_collaborators symbol_found sb)]) = 1"
    by (simp only: alarms_append alarms_quiet_output)
  have s2_counter: "d_sample_counter s2 = 12003"
    using s1_facts by (simp add: s2_def run_counter)
  have s2_last: "d_last_valid_preamble s2 = 6002"
    using s1_facts by (simp add: s2_def lost_run_last_valid)
  have s2_thr: "d_max_symbols_without_valid_frame s2 = 6000"
    using s1_thr by (simp add: s2_def run_threshold)
  have outs2: "alarms (snd (run test_constants stub_collaborators (replicate 6001 symbol_lost) s1)) = 0"
    using run_sent [OF s1_sent] by blast
  show ?thesis
    using s1_facts s1_sent outs1 outs2 s2_counter s2_last s2_thr
    by (simp add: fresh_decoder_def [symmetric] run1 s2_def [symmetric] case_prod_beta Let_def)
qed

section \<open>Properties of the orbital and clock model\<close>

subsection \<open>check\_t\<close>

text \<open>
  Claim C4, as stated: for every \<open>t\<close> the result of \<open>check_t\<close> lies in
  \<open>[-302400, 302400]\<close>. It fails: the code shifts by one week at most, so a difference
  of 1000000 s comes back as 395200 s, outside the interval.
\<close>

theorem check_t_range_counterexample:
  "check_t 1000000 = 395200 \<and> \<not> (- 302400 \<le> check_t 1000000 \<and> check_t 1000000 \<le> 302400)"
  by (simp add: check_t_def half_week_def)

text \<open>
  Claim C4, amended: \<open>check_t t\<close> is \<open>t\<close> shifted by one week at most (by \<open>-604800\<close> when
  \<open>t > 302400\<close>, by \<open>+604800\<close> when \<open>t < -302400\<close>, not at all otherwise), and the result
  lies in \<open>[-302400, 302400]\<close> exactly when \<open>|t| \<le> 907200\<close>, that is when \<open>t\<close> is at most
  one and a half weeks away from zero.
\<close>

theorem check_t_single_shift:
  "check_t t = t - 604800 * (if t > 302400 then 1 else if t < - 302400 then - 1 else 0)
   \<and> ((- 302400 \<le> check_t t \<and> check_t t \<le> 302400) = (\<bar>t\<bar> \<le> 907200))"
  by (auto simp add: check_t_def half_week_def)

subsection \<open>The eccentric anomaly iteration\<close>

text \<open>
  The loop entered at index \<open>ii\<close> with the value \<open>E\<close> makes \<open>n\<close> updates, at most \<open>20 - ii\<close>; no
  update before the last one passes the convergence test, and the last one does unless the
  index has run out.
\<close>

lemma eccentric_anomaly_loop_char:
  "ii \<le> 20 \<Longrightarrow>
   \<exists>n. int n \<le> 20 - ii \<and> (ii < 20 \<longrightarrow> 1 \<le> n)
     \<and> eccentric_anomaly_loop PI M ecc ii E = (kepler_step M ecc ^^ n) E
     \<and> (\<forall>k. Suc k < n \<longrightarrow> \<not> kepler_converged PI M ecc ((kepler_step M ecc ^^ k) E))
     \<and> (int n = 20 - ii \<or> (1 \<le> n \<and> kepler_converged PI M ecc ((kepler_step M ecc ^^ (n - 1)) E)))"
proof (induction PI M ecc ii E rule: eccentric_anomaly_loop.induct)
  case (1 PI M ecc ii E)
  show ?case
  proof (cases "ii < 20")
    case False
    with "1.prems" have "ii = 20" by simp
    then show ?thesis
      by (intro exI [of _ 0]) (simp add: eccentric_anomaly_loop.simps)
  next
    case True
    show ?thesis
    proof (cases "kepler_converged PI M ecc E")
      case True
      with \<open>ii < 20\<close> show ?thesis
        by (intro exI [of _ 1])
          (simp add: eccentric_anomaly_loop.simps [of PI M ecc ii E] kepler_converged_def kepler_step_def Let_def)
    next
      case False
      with \<open>ii < 20\<close> have unf: "eccentric_anomaly_loop PI M ecc ii E =
          eccentric_anomaly_loop PI M ecc (ii + 1) (kepler_step M ecc E)"
        by (simp add: eccentric_anomaly_loop.simps [of PI M ecc ii E] kepler_converged_def kepler_step_def Let_def)
      have nc: "\<not> \<bar>fmod (M + ecc * sin E - E) (2 * PI)\<bar> < 1 / 10 ^ 12"
        using False unfolding kepler_converged_def kepler_step_def .
      from \<open>ii < 20\<close> have le: "ii + 1 \<le> 20" by simp
      note "1.IH" [OF \<open>ii < 20\<close> refl refl refl nc le, folded kepler_step_def]
      then obtain n where n: "int n \<le> 20 - (ii + 1)"
        "eccentric_anomaly_loop PI M ecc (ii + 1) (kepler_step M ecc E) = (kepler_step M ecc ^^ n) (kepler_step M ecc E)"
        "\<forall>k. Suc k < n \<longrightarrow> \<not> kepler_converged PI M ecc ((kepler_step M ecc ^^ k) (kepler_step M ecc E))"
        "int n = 20 - (ii + 1) \<or> (1 \<le> n \<and> kepler_converged PI M ecc ((kepler_step M ecc ^^ (n - 1)) (kepler_step M ecc E)))"
        by blast
      have a: "\<forall>k. Suc k < Suc n \<longrightarrow> \<not> kepler_converged PI M ecc ((kepler_step M ecc ^^ k) E)"
      proof (intro allI impI)
        fix k assume "Suc k < Suc n"
        show "\<not> kepler_converged PI M ecc ((kepler_step M ecc ^^ k) E)"
        proof (cases k)
          case 0 then show ?thesis using False by simp
        next
          case (Suc j)
          with \<open>Suc k < Suc n\<close> have "Suc j < n" by simp
          with n(3) have "\<not> kepler_converged PI M ecc ((kepler_step M ecc ^^ j) (kepler_step M ecc E))" by blast
          then show ?thesis using Suc by (simp add: funpow_swap1)
        qed
      qed
      have b: "int (Suc n) = 20 - ii \<or> (1 \<le> Suc n \<and> kepler_converged PI M ecc ((kepler_step M ecc ^^ (Suc n - 1)) E))"
        using n(4)
      proof
        assume "int n = 20 - (ii + 1)" then show ?thesis by simp
      next
        assume c: "1 \<le> n \<and> kepler_converged PI M ecc ((kepler_step M ecc ^^ (n - 1)) (kepler_step M ecc E))"
        then obtain j where j: "n = Suc j" by (cases n) auto
        with c show ?thesis by (simp add: funpow_swap1)
      qed
      show ?thesis
        using n(1) n(2) a b unf
        by (intro exI [of _ "Suc n"]) (simp add: funpow_swap1)
    qed
  qed
qed

lemma kepler_two_cycle:
  "(kepler_step (pi / 2) (pi / 2) ^^ k) (pi / 2) = (if even k then pi / 2 else pi)"
  by (induction k) (simp_all add: kepler_step_def)

lemma fmod_small: "0 \<le> x \<Longrightarrow> x < y \<Longrightarrow> fmod x y = x"
proof -
  assume a: "0 \<le> x" "x < y"
  then have "0 \<le> x / y" "x / y < 1" by simp_all
  then have "\<lfloor>x / y\<rfloor> = 0" by linarith
  with \<open>0 \<le> x / y\<close> show ?thesis by (simp add: fmod_def)
qed

lemma fmod_small_neg: "x \<le> 0 \<Longrightarrow> - y < x \<Longrightarrow> fmod x y = x"
proof -
  assume a: "x \<le> 0" "- y < x"
  then have y: "0 < y" by simp
  with a have "- 1 < x / y" by (simp add: pos_less_divide_eq)
  moreover from a y have "x / y \<le> 0" by (simp add: divide_le_0_iff)
  ultimately have "\<lceil>x / y\<rceil> = 0" "\<lfloor>x / y\<rfloor> \<le> 0" by linarith+
  moreover have "\<lfloor>x / y\<rfloor> = 0" if "0 \<le> x / y"
  proof -
    from that \<open>x / y \<le> 0\<close> have "x / y = 0" by (rule order_antisym [rotated])
    then show ?thesis by (simp only: floor_zero)
  qed
  ultimately show ?thesis by (simp add: fmod_def)
qed

lemma kepler_two_cycle_not_converged:
  "\<not> kepler_converged pi (pi / 2) (pi / 2) ((kepler_step (pi / 2) (pi / 2) ^^ k) (pi / 2))"
proof (cases "even k")
  case True
  have "fmod (pi / 2) (2 * pi) = pi / 2"
    by (rule fmod_small) (use pi_gt_zero in simp_all)
  moreover have "\<not> pi / 2 < 1 / 10 ^ 12" using pi_ge_two by simp
  ultimately show ?thesis
    using True by (simp add: kepler_two_cycle kepler_converged_def kepler_step_def)
next
  case False
  have "fmod (- (pi / 2)) (2 * pi) = - (pi / 2)"
    by (rule fmod_small_neg) (use pi_gt_zero in simp_all)
  moreover have "\<not> pi / 2 < 1 / 10 ^ 12" using pi_ge_two by simp
  ultimately show ?thesis
    using False by (simp add: kepler_two_cycle kepler_converged_def kepler_step_def)
qed

text \<open>
  Claim C5: the eccentric anomaly iteration of \<open>satellitePosition\<close> and of
  \<open>sv_clock_relativistic_term\<close> always returns a value (the function is total and has no
  error result). Started at \<open>E = M\<close>, it applies the update \<open>E \<leftarrow> M + e sin E\<close> some \<open>n\<close> times
  with \<open>1 \<le> n < 20\<close> and returns the last iterate: the test \<open>|fmod (\<Delta>E, 2 PI)| < 1e-12\<close> fails
  after each update before the \<open>n\<close>-th, and either it holds after the \<open>n\<close>-th or the loop
  index has run out (\<open>n = 19\<close>, the index going from 1 while it is below 20), in which case
  the last iterate is returned all the same.
\<close>

theorem eccentric_anomaly_bounded_soft_cap:
  "\<exists>n. 1 \<le> n \<and> n < 20
     \<and> eccentric_anomaly PI M ecc = (kepler_step M ecc ^^ n) M
     \<and> (\<forall>k. Suc k < n \<longrightarrow> \<not> kepler_converged PI M ecc ((kepler_step M ecc ^^ k) M))
     \<and> (n = 19 \<or> kepler_converged PI M ecc ((kepler_step M ecc ^^ (n - 1)) M))"
proof -
  from eccentric_anomaly_loop_char [of 1 PI M ecc M]
  obtain n where n: "int n \<le> 19" "1 \<le> n"
      "eccentric_anomaly_loop PI M ecc 1 M = (kepler_step M ecc ^^ n) M"
      "\<forall>k. Suc k < n \<longrightarrow> \<not> kepler_converged PI M ecc ((kepler_step M ecc ^^ k) M)"
      "int n = 19 \<or> (1 \<le> n \<and> kepler_converged PI M ecc ((kepler_step M ecc ^^ (n - 1)) M))"
    by auto
  from n(1) have "n < 20" by simp
  moreover from n(5) have "n = 19 \<or> kepler_converged PI M ecc ((kepler_step M ecc ^^ (n - 1)) M)"
    by auto
  ultimately show ?thesis
    using n(2) n(3) n(4) by (intro exI [of _ n]) (simp add: eccentric_anomaly_def)
qed

text \<open>
  Witness: with \<open>M = \<pi>/2\<close> and \<open>e = \<pi>/2\<close> the iterates alternate between \<open>\<pi>/2\<close> and \<open>\<pi>\<close>, the
  test never holds, and the loop returns its 19th iterate, \<open>\<pi>\<close>.
\<close>

theorem eccentric_anomaly_bounded_soft_cap_witness:
  "eccentric_anomaly pi (pi / 2) (pi / 2) = (kepler_step (pi / 2) (pi / 2) ^^ 19) (pi / 2)
   \<and> eccentric_anomaly pi (pi / 2) (pi / 2) = pi
   \<and> \<not> kepler_converged pi (pi / 2) (pi / 2) ((kepler_step (pi / 2) (pi / 2) ^^ 18) (pi / 2))"
proof -
  from eccentric_anomaly_bounded_soft_cap [of pi "pi / 2" "pi / 2"]
  obtain n where n: "eccentric_anomaly pi (pi / 2) (pi / 2) = (kepler_step (pi / 2) (pi / 2) ^^ n) (pi / 2)"
      "n = 19 \<or> kepler_converged pi (pi / 2) (pi / 2) ((kepler_step (pi / 2) (pi / 2) ^^ (n - 1)) (pi / 2))"
    by blast
  from n(2) have "n = 19" using kepler_two_cycle_not_converged by blast
  with n(1) have e: "eccentric_anomaly pi (pi / 2) (pi / 2) = (kepler_step (pi / 2) (pi / 2) ^^ 19) (pi / 2)"
    by simp
  moreover have "(kepler_step (pi / 2) (pi / 2) ^^ 19) (pi / 2) = pi"
    by (simp only: kepler_two_cycle) simp
  ultimately show ?thesis using kepler_two_cycle_not_converged by simp
qed

subsection \<open>satellitePosition\<close>

text \<open>
  Claim C10: \<open>satellitePosition\<close> returns the clock correction, the polynomial
  \<open>A_f0 + A_f1 tk + A_f2 tk\<^sup>2\<close> at \<open>tk = check_t (transmitTime - Toc)\<close> minus the relativistic
  term \<open>2 sqrt (GM a) e sin E / c\<^sup>2\<close>, with \<open>a\<close> the square of \<open>d_sqrt_A\<close> and \<open>E\<close> the eccentric
  anomaly of the loop. Position and velocity are not returned: they are the fields
  \<open>d_satpos_X/Y/Z\<close> and \<open>d_satvel_X/Y/Z\<close> of the object after the call, which differs from the
  object before the call in these six fields only.
\<close>

theorem satellitePosition_returns_clock_correction:
  "fst (satellitePosition K transmitTime eph) =
     (let tk = check_t (transmitTime - d_Toc eph);
          a = (d_sqrt_A eph)\<^sup>2;
          E = eccentric_anomaly (BEIDOU_DNAV_PI K) (mean_anomaly K transmitTime eph) (d_eccentricity eph)
      in d_A_f0 eph + d_A_f1 eph * tk + d_A_f2 eph * tk\<^sup>2
           - 2 * sqrt (BEIDOU_DNAV_GM K * a) * d_eccentricity eph * sin E / (BEIDOU_DNAV_C_M_S K)\<^sup>2)
   \<and> (let tk = check_t (transmitTime - d_Toe eph);
          E = eccentric_anomaly (BEIDOU_DNAV_PI K) (mean_anomaly K transmitTime eph) (d_eccentricity eph);
          phi = sp_phi K eph E; u = sp_u eph phi; r = sp_r eph E phi; i = sp_i eph tk phi;
          Omega = sp_Omega K eph tk;
          Omega_dot = d_OMEGA_DOT eph - BEIDOU_DNAV_OMEGA_EARTH_DOT K;
          X = cos u * r * cos Omega - sin u * r * cos i * sin Omega;
          Y = cos u * r * sin Omega + sin u * r * cos i * cos Omega;
          Z = sin u * r * sin i
      in snd (satellitePosition K transmitTime eph) =
           eph\<lparr>d_satpos_X := X, d_satpos_Y := Y, d_satpos_Z := Z,
               d_satvel_X := - Omega_dot * (cos u * r + sin u * r * cos i)
                               + X * cos Omega - Y * cos i * sin Omega,
               d_satvel_Y := Omega_dot * (cos u * r * cos Omega - sin u * r * cos i * sin Omega)
                               + X * sin Omega + Y * cos i * cos Omega,
               d_satvel_Z := Y * sin i\<rparr>)"
  by (simp add: satellitePosition_def Let_def power2_eq_square)

end
